theory Spec2Isabelle
  imports Complex_Main
begin

section \<open>Vocabulary shared by the three modules\<close>

text \<open>
  The members of Home Assistant's \<open>HVACMode\<close> string enumeration. The entities accept
  only three of them (\<open>hvac_modes\<close>); the others are what a caller may still pass.
\<close>

datatype HVACMode = OFF | HEAT | COOL | HEAT_COOL | AUTO | DRY | FAN_ONLY

text \<open>The members of \<open>HVACAction\<close> that the source mentions.\<close>

datatype HVACAction = ACTION_HEATING | ACTION_IDLE | ACTION_OFF

text \<open>
  The exceptions of the model: \<open>NotImplementedError\<close> is raised by the mode setters,
  \<open>KeyError\<close> by a subscript on a dictionary without the key, \<open>TypeError\<close> by calling a
  value that is not callable, and \<open>RemoteCallFailed\<close> stands for whatever a failing
  operation of the API client raises.
\<close>

datatype error = NotImplementedError | KeyError | TypeError | RemoteCallFailed

text \<open>
  The operations of the API client that the entities await, with their arguments. The
  first argument is the zone identifier. Temperatures are rationals: every finite
  floating-point number is one, and Python's \<open>int\<close> values are embedded by \<open>of_int\<close>.
\<close>

datatype api_call =
    Async_set_temporary_override string rat
  | Async_set_manual string rat
  | Async_set_schedule string int
  | Async_set_off string
  | Async_activate_heating_time_program string int
  | Async_hw_set_comfort_setpoint string rat
  | Async_hw_set_continuous_comfort string
  | Async_hw_set_schedule string
  | Async_hw_set_off string

text \<open>
  What awaiting a piece of code did: the value it returned or the exception it raised,
  and the remote operations it attempted, in order.
\<close>

type_synonym effect = "(error + unit) \<times> api_call list"

definition await_api :: "(api_call \<Rightarrow> bool) \<Rightarrow> api_call \<Rightarrow> effect" where
  "await_api fails c = (if fails c then Inl RemoteCallFailed else Inr (), [c])"

definition and_then :: "effect \<Rightarrow> effect \<Rightarrow> effect" where
  "and_then a b = (case fst a of Inl e \<Rightarrow> a | Inr u \<Rightarrow> (fst b, snd a @ snd b))"

definition skip :: effect where
  "skip = (Inr (), [])"

definition raise :: "error \<Rightarrow> effect" where
  "raise e = (Inl e, [])"

text \<open>Python's \<open>int(x)\<close> on a finite float: truncation towards zero.\<close>

definition py_int :: "rat \<Rightarrow> int" where
  "py_int x = (if 0 \<le> x then \<lfloor>x\<rfloor> else \<lceil>x\<rceil>)"

section \<open>utils.py: the debounce decorator\<close>

text \<open>
  An asyncio task created by \<open>wrapper\<close>: the coroutine \<open>delayed\<close> sleeps until
  \<open>wake_at\<close> and then awaits the decorated method with the arguments of the
  submission (\<open>bound_call\<close>). A task is \<open>Pending\<close> while it sleeps, \<open>Cancelled\<close> once
  \<open>cancel\<close> has reached it, \<open>Returned\<close> when the method returned and \<open>Raised e\<close>
  when the method raised \<open>e\<close>, which \<open>delayed\<close> does not catch.
\<close>

datatype task_state = Pending | Cancelled | Returned | Raised error

record 'w task =
  wake_at :: nat
  bound_call :: 'w
  outcome :: task_state

text \<open>
  One entity and the part of the world it acts on: the zone's entry in the
  coordinator's cache (\<open>self._data\<close>), the table \<open>self._debounce_tasks\<close> from method
  name to task (a task is named by its position in \<open>tasks\<close>, the tasks created so
  far), the clock of the event loop in time units, the coordinator's refresh block,
  the behaviour of the API client and the log of the remote operations attempted.
\<close>

record ('w, 'd) entity =
  zone_id :: string
  zone :: 'd
  debounce_tasks :: "string \<rightharpoonup> nat"
  tasks :: "'w task list"
  clock :: nat
  suppressUntil :: "nat option"
  api_fails :: "api_call \<Rightarrow> bool"
  api_log :: "api_call list"

definition task_done :: "'w task \<Rightarrow> bool" where
  "task_done t = (outcome t \<noteq> Pending)"

definition cancel :: "nat \<Rightarrow> 'w task list \<Rightarrow> 'w task list" where
  "cancel i ts = ts[i := (ts ! i)\<lparr>outcome := Cancelled\<rparr>]"

text \<open>
  \<open>wrapper\<close> of \<open>debounce_async(delay_seconds)\<close>, for a method whose \<open>__name__\<close> is
  \<open>name w\<close>. It contains no \<open>await\<close>, so it runs in one piece: the previous task of
  the key is cancelled when it is not done, a new task is created and stored under
  the key. The wrapper returns nothing and raises nothing.
\<close>

definition wrapper :: "nat \<Rightarrow> ('w \<Rightarrow> string) \<Rightarrow> 'w \<Rightarrow> ('w, 'd) entity \<Rightarrow> ('w, 'd) entity" where
  "wrapper delay_seconds name w s =
     (let key = name w;
          ts = (case debounce_tasks s key of
                  None \<Rightarrow> tasks s
                | Some prev_task \<Rightarrow>
                    if prev_task < length (tasks s) \<and> \<not> task_done (tasks s ! prev_task)
                    then cancel prev_task (tasks s) else tasks s);
          task = \<lparr>wake_at = clock s + delay_seconds, bound_call = w, outcome = Pending\<rparr>
      in s\<lparr>tasks := ts @ [task], debounce_tasks := (debounce_tasks s)(key \<mapsto> length ts)\<rparr>)"

text \<open>
  The event loop. A task is due when it still sleeps and its wake-up time has come;
  running it awaits the method, whose remote operations are modelled as completing
  within the same step. One tick of the clock runs the due tasks in the order of
  their creation (all delays are equal, so this is the order of their timers).
\<close>

definition due :: "('w, 'd) entity \<Rightarrow> nat \<Rightarrow> bool" where
  "due s i = (i < length (tasks s) \<and> outcome (tasks s ! i) = Pending \<and> wake_at (tasks s ! i) \<le> clock s)"

definition finished :: "error + unit \<Rightarrow> task_state" where
  "finished r = (case r of Inl e \<Rightarrow> Raised e | Inr u \<Rightarrow> Returned)"

definition run_task :: "(('w, 'd) entity \<Rightarrow> 'w \<Rightarrow> effect) \<Rightarrow> nat \<Rightarrow> ('w, 'd) entity \<Rightarrow> ('w, 'd) entity" where
  "run_task method i s =
     (let r = method s (bound_call (tasks s ! i))
      in s\<lparr>tasks := (tasks s)[i := (tasks s ! i)\<lparr>outcome := finished (fst r)\<rparr>],
            api_log := api_log s @ snd r\<rparr>)"

fun fire_due :: "(('w, 'd) entity \<Rightarrow> 'w \<Rightarrow> effect) \<Rightarrow> nat list \<Rightarrow> ('w, 'd) entity \<Rightarrow> ('w, 'd) entity" where
  "fire_due method [] s = s"
| "fire_due method (i # is) s = fire_due method is (if due s i then run_task method i s else s)"

definition advance :: "(('w, 'd) entity \<Rightarrow> 'w \<Rightarrow> effect) \<Rightarrow> ('w, 'd) entity \<Rightarrow> ('w, 'd) entity" where
  "advance method s = fire_due method [0..<length (tasks s)] (s\<lparr>clock := clock s + 1\<rparr>)"

text \<open>A task that may still run: created, not cancelled and not yet fired.\<close>

definition live :: "('w, 'd) entity \<Rightarrow> nat \<Rightarrow> bool" where
  "live s i = (i < length (tasks s) \<and> outcome (tasks s ! i) = Pending)"

text \<open>
  The states the debounce mechanism of an entity can reach: it starts with no task,
  and then methods are submitted through the wrapper, the clock ticks, and the
  zone's cache entry or the refresh block is rewritten.
\<close>

inductive reachable ::
  "nat \<Rightarrow> ('w \<Rightarrow> string) \<Rightarrow> (('w, 'd) entity \<Rightarrow> 'w \<Rightarrow> effect) \<Rightarrow> ('w, 'd) entity \<Rightarrow> bool"
  for delay_seconds name decorated where
    fresh: "tasks s = [] \<Longrightarrow> debounce_tasks s = Map.empty \<Longrightarrow> reachable delay_seconds name decorated s"
  | submit: "reachable delay_seconds name decorated s \<Longrightarrow>
             reachable delay_seconds name decorated (wrapper delay_seconds name w s)"
  | tick: "reachable delay_seconds name decorated s \<Longrightarrow>
           reachable delay_seconds name decorated (advance decorated s)"
  | cache: "reachable delay_seconds name decorated s \<Longrightarrow>
            reachable delay_seconds name decorated (s\<lparr>zone := d, suppressUntil := b\<rparr>)"

text \<open>
  Modelled from the spec: coordinator.py is not among the sources. Its
  \<open>trigger_update_block(duration)\<close> is the spec's \<open>suppressRefreshFor\<close>: it sets the
  deadline to now + duration. The call carries no zone, so the deadline is the
  coordinator's.
\<close>

definition trigger_update_block :: "nat \<Rightarrow> ('w, 'd) entity \<Rightarrow> ('w, 'd) entity" where
  "trigger_update_block duration s = s\<lparr>suppressUntil := Some (clock s + duration)\<rparr>"

text \<open>
  Modelled from the spec: coordinator.py is not among the sources. The block is
  active until the clock has passed the deadline; before the first write there is
  no deadline.
\<close>

definition suppressed :: "('w, 'd) entity \<Rightarrow> bool" where
  "suppressed s = (case suppressUntil s of None \<Rightarrow> False | Some deadline \<Rightarrow> clock s \<le> deadline)"

text \<open>
  Modelled from the spec: coordinator.py is not among the sources. A poll fetches the
  zone's state from the remote service (\<open>fetched\<close>); while the deadline has not
  passed the fetched values are not applied, afterwards they replace the cache entry.
\<close>

definition async_request_refresh :: "'d \<Rightarrow> ('w, 'd) entity \<Rightarrow> ('w, 'd) entity" where
  "async_request_refresh fetched s = (if suppressed s then s else s\<lparr>zone := fetched\<rparr>)"

text \<open>
  Home Assistant's \<open>async_write_ha_state\<close> computes the state and the attributes of
  the entity before it notifies the observers. The three entity classes list
  \<open>PRESET_MODE\<close> among their supported features, so the attributes include
  \<open>preset_mode\<close>, and an exception of that read is raised to the caller of
  \<open>async_write_ha_state\<close>. The other reads (\<open>hvac_mode\<close>, \<open>hvac_action\<close>, the
  temperatures) go through \<open>dict.get\<close> or through fields that every cache entry of
  the model has, and do not raise. The argument is what the entity's \<open>preset_mode\<close>
  gives on the cache entry at that moment.
\<close>

definition async_write_ha_state :: "error + string \<Rightarrow> error + unit" where
  "async_write_ha_state preset_mode = (case preset_mode of Inl e \<Rightarrow> Inl e | Inr p \<Rightarrow> Inr ())"

text \<open>
  A step of a write operation that may raise: an exception ends the operation with the
  entity as it is at that point, otherwise the rest of the operation follows.
\<close>

definition unless_raised ::
  "error + unit \<Rightarrow> ('w, 'd) entity \<Rightarrow> (error + unit) \<times> ('w, 'd) entity
   \<Rightarrow> (error + unit) \<times> ('w, 'd) entity" where
  "unless_raised r s rest = (case r of Inl e \<Rightarrow> (Inl e, s) | Inr u \<Rightarrow> rest)"

section \<open>climate.py: the translation tables\<close>

definition REMEHA_MODE_TO_HVAC_MODE :: "string \<rightharpoonup> HVACMode" where
  "REMEHA_MODE_TO_HVAC_MODE = map_of
     [(''Scheduling'', AUTO), (''TemporaryOverride'', AUTO), (''Manual'', HEAT),
      (''FrostProtection'', OFF)]"

fun HVAC_MODE_TO_REMEHA_MODE :: "HVACMode \<rightharpoonup> string" where
  "HVAC_MODE_TO_REMEHA_MODE AUTO = Some ''Scheduling''"
| "HVAC_MODE_TO_REMEHA_MODE HEAT = Some ''Manual''"
| "HVAC_MODE_TO_REMEHA_MODE OFF = Some ''FrostProtection''"
| "HVAC_MODE_TO_REMEHA_MODE m = None"

definition REMEHA_STATUS_TO_HVAC_ACTION :: "string \<rightharpoonup> HVACAction" where
  "REMEHA_STATUS_TO_HVAC_ACTION = map_of
     [(''ProducingHeat'', ACTION_HEATING), (''RequestingHeat'', ACTION_HEATING),
      (''Idle'', ACTION_IDLE)]"

definition PRESET_INDEX_TO_PRESET_MODE :: "int \<rightharpoonup> string" where
  "PRESET_INDEX_TO_PRESET_MODE = map_of
     [(1, ''clock_program_1''), (2, ''clock_program_2''), (3, ''clock_program_3'')]"

definition PRESET_MODE_TO_PRESET_INDEX :: "string \<rightharpoonup> int" where
  "PRESET_MODE_TO_PRESET_INDEX = map_of
     [(''clock_program_1'', 1), (''clock_program_2'', 2), (''clock_program_3'', 3)]"

definition REMEHA_HW_MODE_TO_HVAC_MODE :: "string \<rightharpoonup> HVACMode" where
  "REMEHA_HW_MODE_TO_HVAC_MODE = map_of
     [(''ContinuousComfort'', HEAT), (''Scheduling'', AUTO), (''Off'', OFF)]"

fun HVAC_MODE_TO_REMEHA_HW_MODE :: "HVACMode \<rightharpoonup> string" where
  "HVAC_MODE_TO_REMEHA_HW_MODE AUTO = Some ''Scheduling''"
| "HVAC_MODE_TO_REMEHA_HW_MODE HEAT = Some ''ContinuousComfort''"
| "HVAC_MODE_TO_REMEHA_HW_MODE OFF = Some ''Off''"
| "HVAC_MODE_TO_REMEHA_HW_MODE m = None"

definition REMEHA_HW_STATUS_TO_HVAC_ACTION :: "string \<rightharpoonup> HVACAction" where
  "REMEHA_HW_STATUS_TO_HVAC_ACTION = map_of
     [(''ProducingHeat'', ACTION_HEATING), (''RequestingHeat'', ACTION_HEATING),
      (''Idle'', ACTION_IDLE)]"

definition PRESET_INDEX_TO_HW_PRESET_MODE :: "int \<rightharpoonup> string" where
  "PRESET_INDEX_TO_HW_PRESET_MODE = map_of [(1, ''Scheduling program'')]"

definition HW_PRESET_MODE_TO_PRESET_INDEX :: "string \<rightharpoonup> int" where
  "HW_PRESET_MODE_TO_PRESET_INDEX = map_of [(''Scheduling program'', 1)]"

text \<open>\<open>hvac_modes\<close> is the same list in all three entity classes.\<close>

definition hvac_modes :: "HVACMode list" where
  "hvac_modes = [OFF, HEAT, AUTO]"

text \<open>\<open>d.get(k)\<close> where \<open>k\<close> itself may be \<open>None\<close>, which is no key of the tables.\<close>

definition get_opt :: "('k \<rightharpoonup> 'v) \<Rightarrow> 'k option \<Rightarrow> 'v option" where
  "get_opt d k = (case k of None \<Rightarrow> None | Some x \<Rightarrow> d x)"

text \<open>\<open>d[k]\<close>: a missing key raises \<open>KeyError\<close>.\<close>

definition subscript :: "('k \<rightharpoonup> 'v) \<Rightarrow> 'k \<Rightarrow> error + 'v" where
  "subscript d k = (case d k of None \<Rightarrow> Inl KeyError | Some v \<Rightarrow> Inr v)"

section \<open>climate.py: RemehaHomeClimateEntity\<close>

text \<open>
  The fields of a climate zone's cache entry that the entity's modes, presets and
  writes use. A mode or status field holds a vendor string or \<open>None\<close>.
\<close>

record climate_zone =
  zoneMode :: "string option"
  setPoint :: rat
  activeComfortDemand :: "string option"
  activeHeatingClimateTimeProgramNumber :: int

text \<open>The debounced methods of the class with the arguments of a submission.\<close>

datatype climate_call =
    Set_temperature rat
  | Set_hvac_mode HVACMode
  | Activate_heating_time_program int "HVACMode option"

type_synonym climate_entity = "(climate_call, climate_zone) entity"

definition climate_hvac_mode :: "climate_zone \<Rightarrow> HVACMode option" where
  "climate_hvac_mode d = get_opt REMEHA_MODE_TO_HVAC_MODE (zoneMode d)"

definition climate_hvac_action :: "climate_zone \<Rightarrow> HVACAction option" where
  "climate_hvac_action d =
     (if climate_hvac_mode d = Some OFF then Some ACTION_OFF
      else get_opt REMEHA_STATUS_TO_HVAC_ACTION (activeComfortDemand d))"

definition climate_preset_mode :: "climate_zone \<Rightarrow> error + string" where
  "climate_preset_mode d =
     (if climate_hvac_mode d = Some OFF then Inr ''anti_frost''
      else if climate_hvac_mode d = Some HEAT then Inr ''manual''
      else subscript PRESET_INDEX_TO_PRESET_MODE (activeHeatingClimateTimeProgramNumber d))"

definition climate_target_temperature :: "climate_zone \<Rightarrow> rat option" where
  "climate_target_temperature d =
     (if climate_hvac_mode d = Some OFF then None else Some (setPoint d))"

text \<open>The bodies of the three decorated methods.\<close>

definition set_temperature_method :: "climate_entity \<Rightarrow> rat \<Rightarrow> effect" where
  "set_temperature_method s temperature =
     (if climate_hvac_mode (zone s) = Some AUTO
      then await_api (api_fails s) (Async_set_temporary_override (zone_id s) temperature)
      else if climate_hvac_mode (zone s) = Some HEAT
      then await_api (api_fails s) (Async_set_manual (zone_id s) temperature)
      else skip)"

definition set_hvac_mode_method :: "climate_entity \<Rightarrow> HVACMode \<Rightarrow> effect" where
  "set_hvac_mode_method s hvac_mode =
     (if hvac_mode = AUTO
      then await_api (api_fails s)
             (Async_set_schedule (zone_id s) (activeHeatingClimateTimeProgramNumber (zone s)))
      else if hvac_mode = HEAT
      then await_api (api_fails s) (Async_set_manual (zone_id s) (setPoint (zone s)))
      else if hvac_mode = OFF
      then await_api (api_fails s) (Async_set_off (zone_id s))
      else skip)"

text \<open>
  After the first remote operation the method evaluates \<open>HVACMode.AUTO()\<close>: it calls
  a member of a string enumeration, which is not callable, so \<open>TypeError\<close> is raised
  before the comparison with \<open>previous_hvac_mode\<close> is made and the
  \<open>async_set_schedule\<close> of the next line is never reached.
\<close>

definition activate_heating_time_program_method ::
  "climate_entity \<Rightarrow> int \<Rightarrow> HVACMode option \<Rightarrow> effect" where
  "activate_heating_time_program_method s target_preset previous_hvac_mode =
     and_then
       (await_api (api_fails s) (Async_activate_heating_time_program (zone_id s) target_preset))
       (raise TypeError)"

fun climate_name :: "climate_call \<Rightarrow> string" where
  "climate_name (Set_temperature t) = ''set_temperature''"
| "climate_name (Set_hvac_mode m) = ''set_hvac_mode''"
| "climate_name (Activate_heating_time_program p m) = ''activate_heating_time_program''"

fun climate_method :: "climate_entity \<Rightarrow> climate_call \<Rightarrow> effect" where
  "climate_method s (Set_temperature t) = set_temperature_method s t"
| "climate_method s (Set_hvac_mode m) = set_hvac_mode_method s m"
| "climate_method s (Activate_heating_time_program p m) =
     activate_heating_time_program_method s p m"

text \<open>The decorated methods: each is \<open>debounce_async(5)\<close> applied to its body.\<close>

definition set_temperature :: "rat \<Rightarrow> climate_entity \<Rightarrow> climate_entity" where
  "set_temperature temperature = wrapper 5 climate_name (Set_temperature temperature)"

definition set_hvac_mode :: "HVACMode \<Rightarrow> climate_entity \<Rightarrow> climate_entity" where
  "set_hvac_mode hvac_mode = wrapper 5 climate_name (Set_hvac_mode hvac_mode)"

definition activate_heating_time_program ::
  "int \<Rightarrow> HVACMode option \<Rightarrow> climate_entity \<Rightarrow> climate_entity" where
  "activate_heating_time_program target_preset previous_hvac_mode =
     wrapper 5 climate_name (Activate_heating_time_program target_preset previous_hvac_mode)"

text \<open>
  The write operations the control surface calls. Each returns to its caller the
  value or the exception of the call, and the entity after it. \<open>fetched\<close> is what a
  poll of the remote service would bring at that moment.
\<close>

definition climate_async_set_temperature ::
  "rat option \<Rightarrow> climate_zone \<Rightarrow> climate_entity \<Rightarrow> (error + unit) \<times> climate_entity" where
  "climate_async_set_temperature kwargs fetched s =
     (case kwargs of
        None \<Rightarrow> (Inr (), s)
      | Some temperature \<Rightarrow>
          if climate_hvac_mode (zone s) = Some OFF then (Inr (), s)
          else (Inr (),
                async_request_refresh fetched
                  (trigger_update_block 60 (set_temperature temperature s))))"

definition climate_async_set_hvac_mode ::
  "HVACMode \<Rightarrow> climate_zone \<Rightarrow> climate_entity \<Rightarrow> (error + unit) \<times> climate_entity" where
  "climate_async_set_hvac_mode hvac_mode fetched s =
     (if hvac_mode \<notin> set hvac_modes then (Inl NotImplementedError, s)
      else
        let s1 = s\<lparr>zone := (zone s)\<lparr>zoneMode := HVAC_MODE_TO_REMEHA_MODE hvac_mode\<rparr>\<rparr>
        in unless_raised (async_write_ha_state (climate_preset_mode (zone s1))) s1
             (Inr (),
              async_request_refresh fetched
                (trigger_update_block 60 (set_hvac_mode hvac_mode s1))))"

definition climate_async_set_preset_mode ::
  "string \<Rightarrow> climate_zone \<Rightarrow> climate_entity \<Rightarrow> (error + unit) \<times> climate_entity" where
  "climate_async_set_preset_mode preset_mode fetched s =
     (case PRESET_MODE_TO_PRESET_INDEX preset_mode of
        None \<Rightarrow> (Inr (), s)
      | Some target_preset \<Rightarrow>
          let previous_hvac_mode = climate_hvac_mode (zone s);
              s1 = s\<lparr>zone := (zone s)\<lparr>zoneMode := HVAC_MODE_TO_REMEHA_MODE AUTO,
                                      activeHeatingClimateTimeProgramNumber := target_preset\<rparr>\<rparr>
          in unless_raised (async_write_ha_state (climate_preset_mode (zone s1))) s1
               (Inr (),
                async_request_refresh fetched
                  (trigger_update_block 60
                     (activate_heating_time_program target_preset previous_hvac_mode s1))))"

section \<open>climate.py: RemehaHomeHotWaterEntity\<close>

record hot_water_zone =
  dhwZoneMode :: "string option"
  targetSetpoint :: rat
  comfortSetPoint :: rat
  dhwStatus :: "string option"
  activeDwhTimeProgramNumber :: int

datatype hw_call =
    Set_continuous_comfort_with_temperature int
  | Hw_set_hvac_mode HVACMode
  | Set_schedule

type_synonym hw_entity = "(hw_call, hot_water_zone) entity"

definition hw_hvac_mode :: "hot_water_zone \<Rightarrow> HVACMode option" where
  "hw_hvac_mode d = get_opt REMEHA_HW_MODE_TO_HVAC_MODE (dhwZoneMode d)"

definition hw_hvac_action :: "hot_water_zone \<Rightarrow> HVACAction option" where
  "hw_hvac_action d =
     (if hw_hvac_mode d = Some OFF then Some ACTION_OFF
      else get_opt REMEHA_HW_STATUS_TO_HVAC_ACTION (dhwStatus d))"

definition hw_preset_mode :: "hot_water_zone \<Rightarrow> error + string" where
  "hw_preset_mode d =
     (if hw_hvac_mode d = Some OFF then Inr ''anti_frost''
      else if hw_hvac_mode d = Some HEAT then Inr ''manual''
      else subscript PRESET_INDEX_TO_HW_PRESET_MODE (activeDwhTimeProgramNumber d))"

definition hw_target_temperature :: "hot_water_zone \<Rightarrow> rat option" where
  "hw_target_temperature d =
     (if hw_hvac_mode d = Some AUTO \<or> hw_hvac_mode d = Some OFF then None
      else Some (targetSetpoint d))"

definition set_continuous_comfort_with_temperature_method :: "hw_entity \<Rightarrow> int \<Rightarrow> effect" where
  "set_continuous_comfort_with_temperature_method s temperature =
     and_then
       (await_api (api_fails s) (Async_hw_set_comfort_setpoint (zone_id s) (of_int temperature)))
       (await_api (api_fails s) (Async_hw_set_continuous_comfort (zone_id s)))"

definition hw_set_hvac_mode_method :: "hw_entity \<Rightarrow> HVACMode \<Rightarrow> effect" where
  "hw_set_hvac_mode_method s hvac_mode =
     (if hvac_mode = AUTO then await_api (api_fails s) (Async_hw_set_schedule (zone_id s))
      else if hvac_mode = HEAT
      then await_api (api_fails s) (Async_hw_set_continuous_comfort (zone_id s))
      else if hvac_mode = OFF then await_api (api_fails s) (Async_hw_set_off (zone_id s))
      else skip)"

definition set_schedule_method :: "hw_entity \<Rightarrow> effect" where
  "set_schedule_method s = await_api (api_fails s) (Async_hw_set_schedule (zone_id s))"

fun hw_name :: "hw_call \<Rightarrow> string" where
  "hw_name (Set_continuous_comfort_with_temperature t) =
     ''set_continuous_comfort_with_temperature''"
| "hw_name (Hw_set_hvac_mode m) = ''set_hvac_mode''"
| "hw_name Set_schedule = ''set_schedule''"

fun hw_method :: "hw_entity \<Rightarrow> hw_call \<Rightarrow> effect" where
  "hw_method s (Set_continuous_comfort_with_temperature t) =
     set_continuous_comfort_with_temperature_method s t"
| "hw_method s (Hw_set_hvac_mode m) = hw_set_hvac_mode_method s m"
| "hw_method s Set_schedule = set_schedule_method s"

definition set_continuous_comfort_with_temperature :: "int \<Rightarrow> hw_entity \<Rightarrow> hw_entity" where
  "set_continuous_comfort_with_temperature temperature =
     wrapper 5 hw_name (Set_continuous_comfort_with_temperature temperature)"

definition hw_set_hvac_mode :: "HVACMode \<Rightarrow> hw_entity \<Rightarrow> hw_entity" where
  "hw_set_hvac_mode hvac_mode = wrapper 5 hw_name (Hw_set_hvac_mode hvac_mode)"

definition set_schedule :: "hw_entity \<Rightarrow> hw_entity" where
  "set_schedule = wrapper 5 hw_name Set_schedule"

definition hw_async_set_temperature ::
  "rat option \<Rightarrow> hot_water_zone \<Rightarrow> hw_entity \<Rightarrow> (error + unit) \<times> hw_entity" where
  "hw_async_set_temperature kwargs fetched s =
     (case kwargs of
        None \<Rightarrow> (Inr (), s)
      | Some t \<Rightarrow>
          let temperature = py_int t
          in if hw_hvac_mode (zone s) = Some HEAT
             then
               let s1 = trigger_update_block 60
                          (set_continuous_comfort_with_temperature temperature s);
                   s2 = s1\<lparr>zone := (zone s1)\<lparr>targetSetpoint := of_int temperature,
                                            dhwZoneMode := HVAC_MODE_TO_REMEHA_HW_MODE HEAT\<rparr>\<rparr>
               in unless_raised (async_write_ha_state (hw_preset_mode (zone s2))) s2
                    (Inr (), async_request_refresh fetched s2)
             else (Inr (), s))"

definition hw_async_set_hvac_mode ::
  "HVACMode \<Rightarrow> hot_water_zone \<Rightarrow> hw_entity \<Rightarrow> (error + unit) \<times> hw_entity" where
  "hw_async_set_hvac_mode hvac_mode fetched s =
     (if hvac_mode \<notin> set hvac_modes then (Inl NotImplementedError, s)
      else
        let s1 = s\<lparr>zone := (zone s)\<lparr>dhwZoneMode := HVAC_MODE_TO_REMEHA_HW_MODE hvac_mode\<rparr>\<rparr>;
            s2 = (if hvac_mode = HEAT
                  then s1\<lparr>zone := (zone s1)\<lparr>targetSetpoint := comfortSetPoint (zone s1)\<rparr>\<rparr>
                  else if hvac_mode = OFF
                  then s1\<lparr>zone := (zone s1)\<lparr>targetSetpoint := 10\<rparr>\<rparr>
                  else s1);
            s3 = hw_set_hvac_mode hvac_mode s2
        in unless_raised (async_write_ha_state (hw_preset_mode (zone s3))) s3
             (Inr (), async_request_refresh fetched (trigger_update_block 60 s3)))"

definition hw_async_set_preset_mode ::
  "string \<Rightarrow> hot_water_zone \<Rightarrow> hw_entity \<Rightarrow> (error + unit) \<times> hw_entity" where
  "hw_async_set_preset_mode preset_mode fetched s =
     (case HW_PRESET_MODE_TO_PRESET_INDEX preset_mode of
        None \<Rightarrow> (Inr (), s)
      | Some target_preset \<Rightarrow>
          let previous_hvac_mode = hw_hvac_mode (zone s)
          in if previous_hvac_mode \<noteq> Some AUTO
             then
               let s1 = s\<lparr>zone := (zone s)\<lparr>dhwZoneMode := HVAC_MODE_TO_REMEHA_HW_MODE AUTO,
                                       activeDwhTimeProgramNumber := target_preset\<rparr>\<rparr>
               in unless_raised (async_write_ha_state (hw_preset_mode (zone s1))) s1
                    (Inr (),
                     async_request_refresh fetched (trigger_update_block 60 (set_schedule s1)))
             else (Inr (), async_request_refresh fetched s))"

section \<open>hot_water.py: RemehaHomeHotWaterEntity\<close>

text \<open>
  The module has its own tables and its own entity class for a hot-water zone. The
  class has no debounced method: it awaits the API client inside the write
  operation, so a failing remote operation is raised to the caller, and it never
  asks the coordinator for a refresh block.
\<close>

definition hot_water_REMEHA_MODE_TO_HVAC_MODE :: "string \<rightharpoonup> HVACMode" where
  "hot_water_REMEHA_MODE_TO_HVAC_MODE = map_of
     [(''Manual'', HEAT), (''Scheduling'', AUTO), (''FrostProtection'', OFF)]"

fun hot_water_HVAC_MODE_TO_REMEHA_MODE :: "HVACMode \<rightharpoonup> string" where
  "hot_water_HVAC_MODE_TO_REMEHA_MODE AUTO = Some ''Scheduling''"
| "hot_water_HVAC_MODE_TO_REMEHA_MODE HEAT = Some ''Manual''"
| "hot_water_HVAC_MODE_TO_REMEHA_MODE OFF = Some ''FrostProtection''"
| "hot_water_HVAC_MODE_TO_REMEHA_MODE m = None"

definition hot_water_REMEHA_STATUS_TO_HVAC_ACTION :: "string \<rightharpoonup> HVACAction" where
  "hot_water_REMEHA_STATUS_TO_HVAC_ACTION = map_of
     [(''ProducingHeat'', ACTION_HEATING), (''RequestingHeat'', ACTION_HEATING),
      (''Idle'', ACTION_IDLE)]"

definition hot_water_PRESET_INDEX_TO_PRESET_MODE :: "int \<rightharpoonup> string" where
  "hot_water_PRESET_INDEX_TO_PRESET_MODE = map_of [(1, ''Scheduling program'')]"

definition hot_water_PRESET_MODE_TO_PRESET_INDEX :: "string \<rightharpoonup> int" where
  "hot_water_PRESET_MODE_TO_PRESET_INDEX = map_of [(''Scheduling program'', 1)]"

type_synonym hot_water_entity = "(unit, hot_water_zone) entity"

definition hot_water_hvac_mode :: "hot_water_zone \<Rightarrow> HVACMode option" where
  "hot_water_hvac_mode d = get_opt hot_water_REMEHA_MODE_TO_HVAC_MODE (dhwZoneMode d)"

definition hot_water_hvac_action :: "hot_water_zone \<Rightarrow> HVACAction option" where
  "hot_water_hvac_action d =
     (if hot_water_hvac_mode d = Some OFF then Some ACTION_OFF
      else get_opt hot_water_REMEHA_STATUS_TO_HVAC_ACTION (dhwStatus d))"

definition hot_water_preset_mode :: "hot_water_zone \<Rightarrow> error + string" where
  "hot_water_preset_mode d =
     (if hot_water_hvac_mode d = Some OFF then Inr ''anti_frost''
      else if hot_water_hvac_mode d = Some HEAT then Inr ''manual''
      else subscript hot_water_PRESET_INDEX_TO_PRESET_MODE (activeDwhTimeProgramNumber d))"

text \<open>
  Awaiting remote operations inside a write operation: they are logged, an exception
  ends the operation there, and otherwise the rest of the operation follows.
\<close>

definition await_here ::
  "effect \<Rightarrow> ('w, 'd) entity \<Rightarrow> (('w, 'd) entity \<Rightarrow> (error + unit) \<times> ('w, 'd) entity)
   \<Rightarrow> (error + unit) \<times> ('w, 'd) entity" where
  "await_here r s rest =
     (let s1 = s\<lparr>api_log := api_log s @ snd r\<rparr>
      in case fst r of Inl e \<Rightarrow> (Inl e, s1) | Inr u \<Rightarrow> rest s1)"

definition hot_water_async_set_temperature ::
  "rat option \<Rightarrow> hot_water_zone \<Rightarrow> hot_water_entity \<Rightarrow> (error + unit) \<times> hot_water_entity" where
  "hot_water_async_set_temperature kwargs fetched s =
     (case kwargs of
        None \<Rightarrow> (Inr (), s)
      | Some temperature \<Rightarrow>
          if hot_water_hvac_mode (zone s) = Some AUTO then (Inr (), s)
          else if hot_water_hvac_mode (zone s) = Some HEAT
          then await_here
                 (and_then
                    (await_api (api_fails s) (Async_hw_set_comfort_setpoint (zone_id s) temperature))
                    (await_api (api_fails s) (Async_hw_set_continuous_comfort (zone_id s))))
                 s (\<lambda>s1. (Inr (), async_request_refresh fetched s1))
          else if hot_water_hvac_mode (zone s) = Some OFF then (Inr (), s)
          else (Inr (), async_request_refresh fetched s))"

definition hot_water_async_set_hvac_mode ::
  "HVACMode \<Rightarrow> hot_water_zone \<Rightarrow> hot_water_entity \<Rightarrow> (error + unit) \<times> hot_water_entity" where
  "hot_water_async_set_hvac_mode hvac_mode fetched s =
     (let s1 = s\<lparr>zone := (zone s)\<lparr>dhwZoneMode := hot_water_HVAC_MODE_TO_REMEHA_MODE hvac_mode\<rparr>\<rparr>
      in unless_raised (async_write_ha_state (hot_water_preset_mode (zone s1))) s1
        (await_here
           (if hvac_mode = AUTO
            then await_api (api_fails s1)
                   (Async_set_schedule (zone_id s1) (activeDwhTimeProgramNumber (zone s1)))
            else if hvac_mode = HEAT
            then await_api (api_fails s1) (Async_hw_set_continuous_comfort (zone_id s1))
            else if hvac_mode = OFF
            then await_api (api_fails s1) (Async_hw_set_off (zone_id s1))
            else raise NotImplementedError)
           s1 (\<lambda>s2. (Inr (), async_request_refresh fetched s2))))"

definition hot_water_async_set_preset_mode ::
  "string \<Rightarrow> hot_water_zone \<Rightarrow> hot_water_entity \<Rightarrow> (error + unit) \<times> hot_water_entity" where
  "hot_water_async_set_preset_mode preset_mode fetched s =
     (case hot_water_PRESET_MODE_TO_PRESET_INDEX preset_mode of
        None \<Rightarrow> (Inr (), s)
      | Some target_preset \<Rightarrow>
          if hot_water_hvac_mode (zone s) \<noteq> Some AUTO
          then
            let s1 = s\<lparr>zone := (zone s)\<lparr>dhwZoneMode := hot_water_HVAC_MODE_TO_REMEHA_MODE AUTO,
                                    activeDwhTimeProgramNumber := target_preset\<rparr>\<rparr>
            in unless_raised (async_write_ha_state (hot_water_preset_mode (zone s1))) s1
                 (await_here (await_api (api_fails s1) (Async_hw_set_schedule (zone_id s1)))
                    s1 (\<lambda>s2. (Inr (), async_request_refresh fetched s2)))
          else (Inr (), async_request_refresh fetched s))"

section \<open>Predicates and scenarios used in the properties\<close>

text \<open>No task of the entity is waiting to run.\<close>

definition quiescent :: "('w, 'd) entity \<Rightarrow> bool" where
  "quiescent s = list_all (\<lambda>t. outcome t \<noteq> Pending) (tasks s)"

text \<open>Every task that may still run is the one stored under its method name.\<close>

definition registered :: "('w \<Rightarrow> string) \<Rightarrow> ('w, 'd) entity \<Rightarrow> bool" where
  "registered name s =
     (\<forall>i. live s i \<longrightarrow> debounce_tasks s (name (bound_call (tasks s ! i))) = Some i)"

text \<open>
  The shape of an entity in the middle of a burst that began in the quiescent state
  \<open>s0\<close>: the tasks of \<open>s0\<close>, then the superseded tasks \<open>cs\<close>, all cancelled, then
  one sleeping task for \<open>w\<close> that wakes \<open>r\<close> time units from now and is stored
  under its key; nothing has been sent to the API client since \<open>s0\<close>.
\<close>

definition armed ::
  "('w \<Rightarrow> string) \<Rightarrow> ('w, 'd) entity \<Rightarrow> 'w task list \<Rightarrow> 'w \<Rightarrow> nat \<Rightarrow> ('w, 'd) entity \<Rightarrow> bool" where
  "armed name s0 cs w r s =
     (tasks s = tasks s0 @ cs @ [\<lparr>wake_at = clock s + r, bound_call = w, outcome = Pending\<rparr>]
      \<and> list_all (\<lambda>t. outcome t = Cancelled) cs
      \<and> debounce_tasks s (name w) = Some (length (tasks s0) + length cs)
      \<and> api_log s = api_log s0 \<and> zone_id s = zone_id s0 \<and> api_fails s = api_fails s0
      \<and> quiescent s0)"

text \<open>
  A burst of submissions of \<open>set_temperature\<close>: before each submission the clock
  ticks \<open>gap\<close> times.
\<close>

fun burst :: "(nat \<times> rat) list \<Rightarrow> climate_entity \<Rightarrow> climate_entity" where
  "burst [] s = s"
| "burst ((gap, t) # rest) s = burst rest (set_temperature t ((advance climate_method ^^ gap) s))"

text \<open>A rational that is a whole number.\<close>

definition whole :: "rat \<Rightarrow> bool" where
  "whole x = (of_int \<lfloor>x\<rfloor> = x)"

text \<open>An entity as its constructor leaves it, at time 0 and with no refresh block.\<close>

definition new_entity :: "string \<Rightarrow> 'd \<Rightarrow> (api_call \<Rightarrow> bool) \<Rightarrow> ('w, 'd) entity" where
  "new_entity zid d fails =
     \<lparr>zone_id = zid, zone = d, debounce_tasks = Map.empty, tasks = [], clock = 0,
      suppressUntil = None, api_fails = fails, api_log = []\<rparr>"

text \<open>An API client whose operations all succeed, and one whose operations all fail.\<close>

definition api_up :: "api_call \<Rightarrow> bool" where
  "api_up c = False"


text \<open>A climate zone in Auto with active program 2, and the same zone in Heat.\<close>

definition living_room :: climate_zone where
  "living_room =
     \<lparr>zoneMode = Some ''Scheduling'', setPoint = 21, activeComfortDemand = Some ''Idle'',
      activeHeatingClimateTimeProgramNumber = 2\<rparr>"

definition heated_room :: climate_zone where
  "heated_room = living_room\<lparr>zoneMode := Some ''Manual''\<rparr>"

text \<open>A hot-water zone in Auto, and the same zone in Heat as climate.py reads it.\<close>

definition boiler :: hot_water_zone where
  "boiler =
     \<lparr>dhwZoneMode = Some ''Scheduling'', targetSetpoint = 50, comfortSetPoint = 55,
      dhwStatus = Some ''Idle'', activeDwhTimeProgramNumber = 1\<rparr>"

definition heated_boiler :: hot_water_zone where
  "heated_boiler = boiler\<lparr>dhwZoneMode := Some ''ContinuousComfort''\<rparr>"

text \<open>The climate entity after \<open>async_set_preset_mode("clock_program_1")\<close> in Auto.\<close>

definition after_preset :: climate_entity where
  "after_preset =
     snd (climate_async_set_preset_mode ''clock_program_1'' living_room
       (new_entity ''zone-1'' living_room api_up))"

text \<open>
  A climate entity in Heat on which a temperature is set and then, before the clock
  moves, the mode is set to Off.
\<close>

definition heat_then_off :: climate_entity where
  "heat_then_off =
     snd (climate_async_set_hvac_mode OFF heated_room
       (snd (climate_async_set_temperature (Some (43 / 2)) heated_room
         (new_entity ''zone-1'' heated_room api_up))))"

text \<open>A hot-water entity at time 100 whose refresh block lasts until 130.\<close>

definition blocked_boiler :: hw_entity where
  "blocked_boiler =
     (new_entity ''dhw-1'' heated_boiler api_up)\<lparr>clock := 100, suppressUntil := Some 130\<rparr>"


text \<open>A climate entity after two submissions of \<open>set_temperature\<close> at the same time.\<close>

definition two_submissions :: climate_entity where
  "two_submissions =
     set_temperature 22 (set_temperature (43 / 2) (new_entity ''zone-1'' heated_room api_up))"

text \<open>
  A climate zone in Off and a hot-water zone in Auto, each at time 100 with a refresh
  block that lasts until 130.
\<close>

definition off_room :: climate_entity where
  "off_room =
     (new_entity ''zone-1'' (living_room\<lparr>zoneMode := Some ''FrostProtection''\<rparr>) api_up)
       \<lparr>clock := 100, suppressUntil := Some 130\<rparr>"

definition scheduled_boiler :: hw_entity where
  "scheduled_boiler = (new_entity ''dhw-1'' boiler api_up)\<lparr>clock := 100, suppressUntil := Some 130\<rparr>"

text \<open>
  What can happen to the debounce mechanism of an entity, one event at a time: a
  method is submitted through the wrapper, the clock ticks, or the cache entry and the
  refresh block are rewritten. These are the steps of \<open>reachable\<close>.
\<close>

datatype ('w, 'd) event = Submit 'w | Tick | Cache 'd "nat option"

fun happen ::
  "nat \<Rightarrow> ('w \<Rightarrow> string) \<Rightarrow> (('w, 'd) entity \<Rightarrow> 'w \<Rightarrow> effect) \<Rightarrow> ('w, 'd) event
   \<Rightarrow> ('w, 'd) entity \<Rightarrow> ('w, 'd) entity" where
  "happen delay_seconds name decorated (Submit w) s = wrapper delay_seconds name w s"
| "happen delay_seconds name decorated Tick s = advance decorated s"
| "happen delay_seconds name decorated (Cache d b) s = s\<lparr>zone := d, suppressUntil := b\<rparr>"

fun run ::
  "nat \<Rightarrow> ('w \<Rightarrow> string) \<Rightarrow> (('w, 'd) entity \<Rightarrow> 'w \<Rightarrow> effect) \<Rightarrow> ('w, 'd) event list
   \<Rightarrow> ('w, 'd) entity \<Rightarrow> ('w, 'd) entity" where
  "run delay_seconds name decorated [] s = s"
| "run delay_seconds name decorated (ev # evs) s =
     run delay_seconds name decorated evs (happen delay_seconds name decorated ev s)"



section \<open>Lemmas on the debounce decorator and the event loop\<close>

lemma finished_not_Pending [simp]: "finished r \<noteq> Pending"
  by (simp add: finished_def split: sum.split)

lemma run_task_fields [simp]:
  "length (tasks (run_task decorated i s)) = length (tasks s)"
  "debounce_tasks (run_task decorated i s) = debounce_tasks s"
  "clock (run_task decorated i s) = clock s"
  "zone (run_task decorated i s) = zone s"
  "zone_id (run_task decorated i s) = zone_id s"
  "api_fails (run_task decorated i s) = api_fails s"
  "suppressUntil (run_task decorated i s) = suppressUntil s"
  by (simp_all add: run_task_def Let_def)

lemma run_task_nth:
  "j < length (tasks s) \<Longrightarrow>
   tasks (run_task decorated i s) ! j =
     (if j = i then (tasks s ! i)\<lparr>outcome := finished (fst (decorated s (bound_call (tasks s ! i))))\<rparr>
      else tasks s ! j)"
  by (simp add: run_task_def Let_def nth_list_update)

lemma fire_due_length [simp]: "length (tasks (fire_due decorated is s)) = length (tasks s)"
  by (induction "is" arbitrary: s) simp_all

lemma fire_due_debounce_tasks [simp]: "debounce_tasks (fire_due decorated is s) = debounce_tasks s"
  by (induction "is" arbitrary: s) simp_all

lemma fire_due_clock [simp]: "clock (fire_due decorated is s) = clock s"
  by (induction "is" arbitrary: s) simp_all

lemma fire_due_zone [simp]: "zone (fire_due decorated is s) = zone s"
  by (induction "is" arbitrary: s) simp_all

lemma fire_due_zone_id [simp]: "zone_id (fire_due decorated is s) = zone_id s"
  by (induction "is" arbitrary: s) simp_all

lemma fire_due_api_fails [simp]: "api_fails (fire_due decorated is s) = api_fails s"
  by (induction "is" arbitrary: s) simp_all

lemma fire_due_suppressUntil [simp]: "suppressUntil (fire_due decorated is s) = suppressUntil s"
  by (induction "is" arbitrary: s) simp_all

lemma run_task_keeps:
  assumes "j < length (tasks s)"
  shows "bound_call (tasks (run_task decorated i s) ! j) = bound_call (tasks s ! j)"
    and "wake_at (tasks (run_task decorated i s) ! j) = wake_at (tasks s ! j)"
    and "outcome (tasks (run_task decorated i s) ! j) = Pending \<Longrightarrow> outcome (tasks s ! j) = Pending"
  using assms by (auto simp: run_task_nth split: if_splits)

lemma fire_due_bound_call:
  "j < length (tasks s) \<Longrightarrow> bound_call (tasks (fire_due decorated is s) ! j) = bound_call (tasks s ! j)"
  by (induction "is" arbitrary: s) (simp_all add: run_task_keeps)

lemma fire_due_wake_at:
  "j < length (tasks s) \<Longrightarrow> wake_at (tasks (fire_due decorated is s) ! j) = wake_at (tasks s ! j)"
  by (induction "is" arbitrary: s) (simp_all add: run_task_keeps)

lemma fire_due_still_pending:
  "j < length (tasks s) \<Longrightarrow> outcome (tasks (fire_due decorated is s) ! j) = Pending \<Longrightarrow>
   outcome (tasks s ! j) = Pending"
proof (induction "is" arbitrary: s)
  case Nil
  then show ?case by simp
next
  case (Cons i "is")
  let ?s = "if due s i then run_task decorated i s else s"
  from Cons.prems have "j < length (tasks ?s)" by simp
  moreover from Cons.prems have "outcome (tasks (fire_due decorated is ?s) ! j) = Pending" by simp
  ultimately have "outcome (tasks ?s ! j) = Pending" by (rule Cons.IH)
  with Cons.prems(1) show ?case by (auto simp: run_task_keeps split: if_splits)
qed

lemmas fire_due_keeps = fire_due_bound_call fire_due_wake_at fire_due_still_pending

lemma advance_fields [simp]:
  "length (tasks (advance decorated s)) = length (tasks s)"
  "debounce_tasks (advance decorated s) = debounce_tasks s"
  "clock (advance decorated s) = clock s + 1"
  "zone (advance decorated s) = zone s"
  "zone_id (advance decorated s) = zone_id s"
  "api_fails (advance decorated s) = api_fails s"
  "suppressUntil (advance decorated s) = suppressUntil s"
  by (simp_all add: advance_def)

lemma advance_keeps:
  assumes "j < length (tasks s)"
  shows "bound_call (tasks (advance decorated s) ! j) = bound_call (tasks s ! j)"
    and "wake_at (tasks (advance decorated s) ! j) = wake_at (tasks s ! j)"
    and "outcome (tasks (advance decorated s) ! j) = Pending \<Longrightarrow> outcome (tasks s ! j) = Pending"
  using assms fire_due_keeps[of j "s\<lparr>clock := clock s + 1\<rparr>" decorated "[0..<length (tasks s)]"]
  by (simp_all add: advance_def)

lemma live_advance: "live (advance decorated s) j \<Longrightarrow> live s j"
  by (auto simp: live_def advance_keeps)

lemma wrapper_length: "length (tasks (wrapper delay name w s)) = Suc (length (tasks s))"
  by (simp add: wrapper_def Let_def cancel_def split: option.split)

lemma wrapper_new:
  "tasks (wrapper delay name w s) ! length (tasks s) =
     \<lparr>wake_at = clock s + delay, bound_call = w, outcome = Pending\<rparr>"
  "debounce_tasks (wrapper delay name w s) = (debounce_tasks s)(name w \<mapsto> length (tasks s))"
  by (simp_all add: wrapper_def Let_def cancel_def nth_append split: option.split)

lemma wrapper_old:
  assumes "i < length (tasks s)"
  shows "tasks (wrapper delay name w s) ! i =
     (if debounce_tasks s (name w) = Some i \<and> outcome (tasks s ! i) = Pending
      then (tasks s ! i)\<lparr>outcome := Cancelled\<rparr> else tasks s ! i)"
  using assms
  by (auto simp: wrapper_def Let_def cancel_def nth_append nth_list_update task_done_def split: option.split)

lemma registered_wrapper:
  assumes "registered name s"
  shows "registered name (wrapper delay name w s)"
  unfolding registered_def
proof (intro allI impI)
  fix i assume l: "live (wrapper delay name w s) i"
  then have "i < Suc (length (tasks s))" by (simp add: live_def wrapper_length)
  then consider "i = length (tasks s)" | "i < length (tasks s)" by linarith
  then show "debounce_tasks (wrapper delay name w s) (name (bound_call (tasks (wrapper delay name w s) ! i))) = Some i"
  proof cases
    case 1
    then show ?thesis by (simp add: wrapper_new)
  next
    case 2
    with l have p: "outcome (tasks s ! i) = Pending" "\<not> (debounce_tasks s (name w) = Some i)"
      by (auto simp: live_def wrapper_old split: if_splits)
    with 2 have "live s i" by (simp add: live_def)
    with assms have "debounce_tasks s (name (bound_call (tasks s ! i))) = Some i"
      by (simp add: registered_def)
    with p 2 show ?thesis by (auto simp: wrapper_new wrapper_old)
  qed
qed

lemma registered_advance:
  assumes "registered name s"
  shows "registered name (advance decorated s)"
  unfolding registered_def
proof (intro allI impI)
  fix i assume l: "live (advance decorated s) i"
  then have "live s i" by (rule live_advance)
  moreover from l have "i < length (tasks s)" by (simp add: live_def)
  ultimately show "debounce_tasks (advance decorated s) (name (bound_call (tasks (advance decorated s) ! i))) = Some i"
    using assms by (simp add: registered_def advance_keeps)
qed

lemma reachable_registered:
  "reachable delay name decorated s \<Longrightarrow> registered name s"
proof (induction rule: reachable.induct)
  case (fresh s)
  then show ?case by (simp add: registered_def live_def)
next
  case (submit s w)
  then show ?case by (simp add: registered_wrapper)
next
  case (tick s)
  then show ?case by (simp add: registered_advance)
next
  case (cache s d b)
  then show ?case by (simp add: registered_def live_def)
qed

lemma fire_due_none: "\<forall>i \<in> set is. \<not> due s i \<Longrightarrow> fire_due decorated is s = s"
  by (induction "is" arbitrary: s) simp_all

lemma fire_due_append: "fire_due decorated (xs @ ys) s = fire_due decorated ys (fire_due decorated xs s)"
  by (induction xs arbitrary: s) simp_all

lemma quiescent_nth: "quiescent s \<Longrightarrow> i < length (tasks s) \<Longrightarrow> outcome (tasks s ! i) \<noteq> Pending"
  by (simp add: quiescent_def list_all_length)

lemma cancelled_nth: "list_all (\<lambda>t. outcome t = Cancelled) cs \<Longrightarrow> i < length cs \<Longrightarrow> outcome (cs ! i) = Cancelled"
  by (simp add: list_all_length)

lemma armed_not_due_before:
  assumes "armed name s0 cs w r s" "i < length (tasks s0) + length cs"
  shows "\<not> due (s\<lparr>clock := c\<rparr>) i"
proof (cases "i < length (tasks s0)")
  case True
  with assms(1) show ?thesis
    by (auto simp: due_def armed_def nth_append dest: quiescent_nth)
next
  case False
  with assms have lt: "i - length (tasks s0) < length cs" by simp
  with assms(1) have "outcome (cs ! (i - length (tasks s0))) = Cancelled"
    by (simp add: armed_def cancelled_nth)
  with assms False lt show ?thesis
    by (simp add: due_def armed_def nth_append)
qed

lemma armed_advance:
  assumes "armed name s0 cs w (Suc (Suc r)) s"
  shows "armed name s0 cs w (Suc r) (advance decorated s)"
proof -
  let ?s = "s\<lparr>clock := clock s + 1\<rparr>"
  have len: "length (tasks s) = Suc (length (tasks s0) + length cs)"
    using assms by (simp add: armed_def)
  have "\<forall>i \<in> set [0..<length (tasks s)]. \<not> due ?s i"
  proof
    fix i assume "i \<in> set [0..<length (tasks s)]"
    then have "i < length (tasks s0) + length cs \<or> i = length (tasks s0) + length cs"
      using len by auto
    then show "\<not> due ?s i"
    proof
      assume "i < length (tasks s0) + length cs"
      with assms show ?thesis by (rule armed_not_due_before)
    next
      assume "i = length (tasks s0) + length cs"
      with assms show ?thesis by (simp add: due_def armed_def nth_append)
    qed
  qed
  then have "advance decorated s = ?s" by (simp add: advance_def fire_due_none)
  with assms show ?thesis by (simp add: armed_def)
qed

lemma armed_funpow:
  "armed name s0 cs w (Suc (g + r)) s \<Longrightarrow> armed name s0 cs w (Suc r) ((advance decorated ^^ g) s)"
proof (induction g arbitrary: s)
  case 0
  then show ?case by simp
next
  case (Suc g)
  from Suc.prems have "armed name s0 cs w (Suc (Suc (g + r))) s" by simp
  then have "armed name s0 cs w (Suc (g + r)) (advance decorated s)" by (rule armed_advance)
  then have "armed name s0 cs w (Suc r) ((advance decorated ^^ g) (advance decorated s))" by (rule Suc.IH)
  then show ?case by (simp add: funpow_swap1)
qed

lemma wrapper_fields [simp]:
  "clock (wrapper delay name w s) = clock s"
  "zone (wrapper delay name w s) = zone s"
  "zone_id (wrapper delay name w s) = zone_id s"
  "api_fails (wrapper delay name w s) = api_fails s"
  "api_log (wrapper delay name w s) = api_log s"
  "suppressUntil (wrapper delay name w s) = suppressUntil s"
  by (simp_all add: wrapper_def Let_def)

lemma armed_first:
  assumes "quiescent s0"
  shows "armed name s0 [] w (Suc r) (wrapper (Suc r) name w s0)"
proof -
  have "tasks (wrapper (Suc r) name w s0) =
        tasks s0 @ [\<lparr>wake_at = clock s0 + Suc r, bound_call = w, outcome = Pending\<rparr>]"
    using assms
    by (auto simp: wrapper_def Let_def task_done_def dest: quiescent_nth split: option.split)
  moreover have "debounce_tasks (wrapper (Suc r) name w s0) (name w) = Some (length (tasks s0))"
    using assms
    by (auto simp: wrapper_def Let_def task_done_def dest: quiescent_nth split: option.split)
  ultimately show ?thesis using assms by (simp add: armed_def)
qed

lemma armed_again:
  assumes "armed name s0 cs w r s" "name w' = name w"
  shows "armed name s0 (cs @ [\<lparr>wake_at = clock s + r, bound_call = w, outcome = Cancelled\<rparr>]) w' (Suc d)
           (wrapper (Suc d) name w' s)"
proof -
  let ?n = "length (tasks s0) + length cs"
  let ?t = "\<lparr>wake_at = clock s + r, bound_call = w, outcome = Pending\<rparr>"
  have t: "tasks s = (tasks s0 @ cs) @ [?t]" and slot: "debounce_tasks s (name w') = Some ?n"
    using assms by (simp_all add: armed_def)
  have c: "cancel ?n (tasks s) = (tasks s0 @ cs) @ [?t\<lparr>outcome := Cancelled\<rparr>]"
    unfolding cancel_def t by (simp add: nth_append list_update_append)
  have nd: "?n < length (tasks s) \<and> \<not> task_done (tasks s ! ?n)"
    unfolding t by (simp add: nth_append task_done_def)
  have "tasks (wrapper (Suc d) name w' s) =
        (tasks s0 @ cs) @ [?t\<lparr>outcome := Cancelled\<rparr>] @ [\<lparr>wake_at = clock s + Suc d, bound_call = w', outcome = Pending\<rparr>]"
    using slot nd c by (simp add: wrapper_def Let_def)
  moreover have "debounce_tasks (wrapper (Suc d) name w' s) (name w') = Some (Suc ?n)"
    using slot nd c by (simp add: wrapper_def Let_def)
  ultimately show ?thesis using assms by (simp add: armed_def)
qed

lemma armed_fire:
  assumes "armed name s0 cs w (Suc 0) s"
  shows "tasks (advance decorated s) =
           tasks s0 @ cs @ [\<lparr>wake_at = clock s + 1, bound_call = w,
              outcome = finished (fst (decorated (s\<lparr>clock := clock s + 1\<rparr>) w))\<rparr>]"
    and "api_log (advance decorated s) = api_log s0 @ snd (decorated (s\<lparr>clock := clock s + 1\<rparr>) w)"
proof -
  let ?s = "s\<lparr>clock := clock s + 1\<rparr>"
  let ?n = "length (tasks s0) + length cs"
  let ?t = "\<lparr>wake_at = clock s + 1, bound_call = w, outcome = Pending\<rparr>"
  have t: "tasks s = (tasks s0 @ cs) @ [?t]"
    using assms by (simp add: armed_def)
  have len: "length (tasks s) = Suc ?n" using t by simp
  have "\<forall>i \<in> set [0..<?n]. \<not> due ?s i"
    by (simp add: armed_not_due_before[OF assms])
  then have before: "fire_due decorated [0..<?n] ?s = ?s" by (rule fire_due_none)
  have d: "due ?s ?n" unfolding due_def using t by (simp add: nth_append)
  have "advance decorated s = fire_due decorated ([0..<?n] @ [?n]) ?s"
    by (simp add: advance_def len)
  also have "\<dots> = run_task decorated ?n ?s"
    using before d by (simp add: fire_due_append del: upt_Suc)
  finally have a: "advance decorated s = run_task decorated ?n ?s" .
  show "tasks (advance decorated s) =
           tasks s0 @ cs @ [\<lparr>wake_at = clock s + 1, bound_call = w,
              outcome = finished (fst (decorated ?s w))\<rparr>]"
    unfolding a run_task_def Let_def using t by (simp add: nth_append list_update_append)
  show "api_log (advance decorated s) = api_log s0 @ snd (decorated ?s w)"
    unfolding a run_task_def Let_def using t assms by (simp add: nth_append armed_def)
qed

lemma quiescent_advance:
  assumes "quiescent s"
  shows "advance decorated s = s\<lparr>clock := clock s + 1\<rparr>"
proof -
  have "\<forall>i \<in> set [0..<length (tasks s)]. \<not> due (s\<lparr>clock := clock s + 1\<rparr>) i"
    using assms by (auto simp: due_def dest: quiescent_nth)
  then show ?thesis by (simp add: advance_def fire_due_none)
qed

lemma funpow_advance_fields [simp]:
  "zone ((advance decorated ^^ n) s) = zone s"
  "zone_id ((advance decorated ^^ n) s) = zone_id s"
  "api_fails ((advance decorated ^^ n) s) = api_fails s"
  "clock ((advance decorated ^^ n) s) = clock s + n"
  by (induction n) simp_all

lemma quiescent_funpow:
  "quiescent s \<Longrightarrow> tasks ((advance decorated ^^ n) s) = tasks s \<and> api_log ((advance decorated ^^ n) s) = api_log s"
proof (induction n arbitrary: s)
  case 0
  then show ?case by simp
next
  case (Suc n)
  from Suc.prems have a: "advance decorated s = s\<lparr>clock := clock s + 1\<rparr>" by (rule quiescent_advance)
  with Suc.prems have "quiescent (advance decorated s)" by (simp add: quiescent_def)
  then have "tasks ((advance decorated ^^ n) (advance decorated s)) = tasks (advance decorated s)
     \<and> api_log ((advance decorated ^^ n) (advance decorated s)) = api_log (advance decorated s)" by (rule Suc.IH)
  then show ?case by (simp add: funpow_swap1 a)
qed

lemma cancelled_outcomes:
  "list_all (\<lambda>t. outcome t = Cancelled) cs \<Longrightarrow> map outcome cs = replicate (length cs) Cancelled"
  by (induction cs) simp_all

lemma armed_settles:
  assumes "armed name s0 cs w 5 s"
  shows "tasks ((advance decorated ^^ (5 + n)) s) =
           tasks s0 @ cs @ [\<lparr>wake_at = clock s + 5, bound_call = w,
              outcome = finished (fst (decorated (((advance decorated ^^ 4) s)\<lparr>clock := clock s + 5\<rparr>) w))\<rparr>]
         \<and> api_log ((advance decorated ^^ (5 + n)) s) =
           api_log s0 @ snd (decorated (((advance decorated ^^ 4) s)\<lparr>clock := clock s + 5\<rparr>) w)"
proof -
  let ?s4 = "(advance decorated ^^ 4) s"
  let ?s5 = "advance decorated ?s4"
  from assms have "armed name s0 cs w (Suc (4 + 0)) s" by (simp add: eval_nat_numeral)
  then have a1: "armed name s0 cs w (Suc 0) ?s4" by (rule armed_funpow)
  have t: "tasks ?s5 = tasks s0 @ cs @ [\<lparr>wake_at = clock s + 5, bound_call = w,
              outcome = finished (fst (decorated (?s4\<lparr>clock := clock s + 5\<rparr>) w))\<rparr>]"
    using armed_fire(1)[OF a1, where decorated = decorated] by (simp add: add.commute)
  have l: "api_log ?s5 = api_log s0 @ snd (decorated (?s4\<lparr>clock := clock s + 5\<rparr>) w)"
    using armed_fire(2)[OF a1, where decorated = decorated] by (simp add: add.commute)
  have "quiescent s0" "list_all (\<lambda>t. outcome t = Cancelled) cs"
    using assms by (simp_all add: armed_def)
  then have q: "quiescent ?s5"
    unfolding quiescent_def t by (auto simp: list_all_iff)
  have "(advance decorated ^^ (5 + n)) s = (advance decorated ^^ n) ?s5"
    by (simp add: funpow_add eval_nat_numeral funpow_swap1)
  with quiescent_funpow[OF q, where decorated = decorated and n = n] t l show ?thesis by simp
qed



lemma burst_armed:
  assumes "armed climate_name s0 cs (Set_temperature v) 5 s" "\<forall>g \<in> set (map fst rest). g < 5"
  shows "\<exists>cs'. length cs' = length cs + length rest \<and>
           armed climate_name s0 cs' (Set_temperature (last (v # map snd rest))) 5 (burst rest s)"
  using assms
proof (induction rest arbitrary: s cs v)
  case Nil
  then show ?case by auto
next
  case (Cons p rest)
  obtain g t where p: "p = (g, t)" by (cases p)
  with Cons.prems have g: "g < 5" by simp
  let ?s = "(advance climate_method ^^ g) s"
  from g have e: "Suc (g + (4 - g)) = 5" by simp
  have "armed climate_name s0 cs (Set_temperature v) (Suc (g + (4 - g))) s"
    unfolding e by (rule Cons.prems(1))
  then have "armed climate_name s0 cs (Set_temperature v) (Suc (4 - g)) ?s" by (rule armed_funpow)
  then have "armed climate_name s0
       (cs @ [\<lparr>wake_at = clock ?s + Suc (4 - g), bound_call = Set_temperature v, outcome = Cancelled\<rparr>])
       (Set_temperature t) (Suc 4) (wrapper (Suc 4) climate_name (Set_temperature t) ?s)"
    by (rule armed_again) simp
  then have "armed climate_name s0
       (cs @ [\<lparr>wake_at = clock ?s + Suc (4 - g), bound_call = Set_temperature v, outcome = Cancelled\<rparr>])
       (Set_temperature t) 5 (set_temperature t ?s)"
    by (simp add: set_temperature_def eval_nat_numeral)
  moreover from Cons.prems(2) have "\<forall>g \<in> set (map fst rest). g < 5" by simp
  ultimately obtain cs' where
    "length cs' = length (cs @ [\<lparr>wake_at = clock ?s + Suc (4 - g), bound_call = Set_temperature v, outcome = Cancelled\<rparr>]) + length rest"
    "armed climate_name s0 cs' (Set_temperature (last (t # map snd rest))) 5 (burst rest (set_temperature t ?s))"
    using Cons.IH by blast
  then show ?case using p by auto
qed

lemma burst_fields [simp]:
  "zone_id (burst rest s) = zone_id s" "api_fails (burst rest s) = api_fails s"
  by (induction rest s rule: burst.induct) (simp_all add: set_temperature_def)

lemma zone_update_same: "zone x = d \<Longrightarrow> x\<lparr>zone := d\<rparr> = x"
  by simp

lemma set_temperature_zone [simp]: "zone (set_temperature t s) = zone s"
  by (simp add: set_temperature_def)

lemma trigger_fields [simp]:
  "suppressUntil (trigger_update_block n s) = Some (clock s + n)"
  "zone (trigger_update_block n s) = zone s"
  "clock (trigger_update_block n s) = clock s"
  by (simp_all add: trigger_update_block_def)

lemma refresh_suppressed:
  "suppressUntil x = Some deadline \<Longrightarrow> clock x \<le> deadline \<Longrightarrow> async_request_refresh y x = x"
  by (simp add: async_request_refresh_def suppressed_def)

lemma refresh_after_trigger [simp]:
  "async_request_refresh y (trigger_update_block n s) = trigger_update_block n s"
  by (simp add: refresh_suppressed[where deadline = "clock s + n"])

section \<open>Lemmas on the state write and on fired work\<close>

lemma preset_index_known:
  "PRESET_MODE_TO_PRESET_INDEX p = Some k \<Longrightarrow> PRESET_INDEX_TO_PRESET_MODE k \<noteq> None"
  "HW_PRESET_MODE_TO_PRESET_INDEX q = Some j \<Longrightarrow> PRESET_INDEX_TO_HW_PRESET_MODE j \<noteq> None"
  by (auto simp: PRESET_MODE_TO_PRESET_INDEX_def PRESET_INDEX_TO_PRESET_MODE_def
      HW_PRESET_MODE_TO_PRESET_INDEX_def PRESET_INDEX_TO_HW_PRESET_MODE_def split: if_splits)

lemma climate_state_write_after_mode:
  assumes "m \<in> set hvac_modes" "m = AUTO \<longrightarrow> activeHeatingClimateTimeProgramNumber d \<in> {1, 2, 3}"
  shows "async_write_ha_state (climate_preset_mode (d\<lparr>zoneMode := HVAC_MODE_TO_REMEHA_MODE m\<rparr>)) = Inr ()"
proof -
  from assms(1) consider "m = OFF" | "m = HEAT" | "m = AUTO"
    by (auto simp: hvac_modes_def)
  then show ?thesis
  proof cases
    case 1
    then show ?thesis
      by (simp add: async_write_ha_state_def climate_preset_mode_def climate_hvac_mode_def
          get_opt_def REMEHA_MODE_TO_HVAC_MODE_def)
  next
    case 2
    then show ?thesis
      by (simp add: async_write_ha_state_def climate_preset_mode_def climate_hvac_mode_def
          get_opt_def REMEHA_MODE_TO_HVAC_MODE_def)
  next
    case 3
    with assms(2) have "activeHeatingClimateTimeProgramNumber d = 1
        \<or> activeHeatingClimateTimeProgramNumber d = 2 \<or> activeHeatingClimateTimeProgramNumber d = 3"
      by simp
    then have "\<exists>n. PRESET_INDEX_TO_PRESET_MODE (activeHeatingClimateTimeProgramNumber d) = Some n"
      by (auto simp: PRESET_INDEX_TO_PRESET_MODE_def)
    with 3 show ?thesis
      by (auto simp: async_write_ha_state_def climate_preset_mode_def climate_hvac_mode_def
          get_opt_def REMEHA_MODE_TO_HVAC_MODE_def subscript_def)
  qed
qed

lemma climate_state_write_after_preset:
  assumes "PRESET_MODE_TO_PRESET_INDEX p = Some k"
  shows "async_write_ha_state (climate_preset_mode
     (d\<lparr>zoneMode := Some ''Scheduling'', activeHeatingClimateTimeProgramNumber := k\<rparr>)) = Inr ()"
proof -
  from preset_index_known(1)[OF assms] obtain n where "PRESET_INDEX_TO_PRESET_MODE k = Some n"
    by auto
  then show ?thesis
    by (simp add: async_write_ha_state_def climate_preset_mode_def climate_hvac_mode_def
        get_opt_def REMEHA_MODE_TO_HVAC_MODE_def subscript_def)
qed

lemma hw_state_write_after_preset:
  assumes "HW_PRESET_MODE_TO_PRESET_INDEX q = Some j"
  shows "async_write_ha_state (hw_preset_mode
     (b\<lparr>dhwZoneMode := Some ''Scheduling'', activeDwhTimeProgramNumber := j\<rparr>)) = Inr ()"
proof -
  from preset_index_known(2)[OF assms] obtain n where "PRESET_INDEX_TO_HW_PRESET_MODE j = Some n"
    by auto
  then show ?thesis
    by (simp add: async_write_ha_state_def hw_preset_mode_def hw_hvac_mode_def
        get_opt_def REMEHA_HW_MODE_TO_HVAC_MODE_def subscript_def)
qed

lemma hw_state_write_in_heat:
  "async_write_ha_state (hw_preset_mode (b\<lparr>dhwZoneMode := Some ''ContinuousComfort''\<rparr>)) = Inr ()"
  by (simp add: async_write_ha_state_def hw_preset_mode_def hw_hvac_mode_def get_opt_def
      REMEHA_HW_MODE_TO_HVAC_MODE_def)

lemma hw_preset_mode_setpoint:
  "hw_preset_mode (b\<lparr>targetSetpoint := v\<rparr>) = hw_preset_mode b"
  by (simp add: hw_preset_mode_def hw_hvac_mode_def)

lemma hw_set_mode_accepted:
  assumes "m \<in> set hvac_modes" "m = AUTO \<longrightarrow> activeDwhTimeProgramNumber (zone h) = 1"
  shows "suppressUntil (snd (hw_async_set_hvac_mode m g h)) = Some (clock h + 60)
         \<and> dhwZoneMode (zone (snd (hw_async_set_hvac_mode m g h))) = HVAC_MODE_TO_REMEHA_HW_MODE m"
proof -
  from assms(1) consider "m = OFF" | "m = HEAT" | "m = AUTO"
    by (auto simp: hvac_modes_def)
  then show ?thesis
  proof cases
    case 1
    have "async_write_ha_state (hw_preset_mode ((zone h)\<lparr>dhwZoneMode := Some ''Off''\<rparr>)) = Inr ()"
      by (simp add: async_write_ha_state_def hw_preset_mode_def hw_hvac_mode_def get_opt_def
          REMEHA_HW_MODE_TO_HVAC_MODE_def)
    with 1 show ?thesis
      by (simp add: hw_async_set_hvac_mode_def hw_set_hvac_mode_def Let_def unless_raised_def
          hvac_modes_def hw_preset_mode_setpoint)
  next
    case 2
    have "async_write_ha_state (hw_preset_mode ((zone h)\<lparr>dhwZoneMode := Some ''ContinuousComfort''\<rparr>)) = Inr ()"
      by (simp add: async_write_ha_state_def hw_preset_mode_def hw_hvac_mode_def get_opt_def
          REMEHA_HW_MODE_TO_HVAC_MODE_def)
    with 2 show ?thesis
      by (simp add: hw_async_set_hvac_mode_def hw_set_hvac_mode_def Let_def unless_raised_def
          hvac_modes_def hw_preset_mode_setpoint)
  next
    case 3
    with assms(2) have "activeDwhTimeProgramNumber (zone h) = 1" by simp
    then have "async_write_ha_state (hw_preset_mode ((zone h)\<lparr>dhwZoneMode := Some ''Scheduling''\<rparr>)) = Inr ()"
      by (simp add: async_write_ha_state_def hw_preset_mode_def hw_hvac_mode_def get_opt_def
          REMEHA_HW_MODE_TO_HVAC_MODE_def subscript_def PRESET_INDEX_TO_HW_PRESET_MODE_def)
    with 3 show ?thesis
      by (simp add: hw_async_set_hvac_mode_def hw_set_hvac_mode_def Let_def unless_raised_def
          hvac_modes_def)
  qed
qed











lemma reachable_zone:
  assumes "reachable delay name method s"
  shows "reachable delay name method (s\<lparr>zone := d\<rparr>)"
proof -
  have "reachable delay name method (s\<lparr>zone := d, suppressUntil := suppressUntil s\<rparr>)"
    using assms by (rule reachable.cache)
  then show ?thesis by simp
qed

lemma reachable_trigger:
  assumes "reachable delay name method s"
  shows "reachable delay name method (trigger_update_block n s)"
proof -
  have "reachable delay name method (s\<lparr>zone := zone s, suppressUntil := Some (clock s + n)\<rparr>)"
    using assms by (rule reachable.cache)
  then show ?thesis by (simp add: trigger_update_block_def)
qed

lemma reachable_refresh:
  "reachable delay name method s \<Longrightarrow> reachable delay name method (async_request_refresh y s)"
  by (simp add: async_request_refresh_def reachable_zone)

text \<open>
  The write operations of the two entity classes of climate.py keep an entity within
  the reachable states of its debounce mechanism.
\<close>

lemma climate_writes_reachable:
  assumes "reachable 5 climate_name climate_method s"
  shows "reachable 5 climate_name climate_method (snd (climate_async_set_temperature kwargs f s))"
    and "reachable 5 climate_name climate_method (snd (climate_async_set_hvac_mode m f s))"
    and "reachable 5 climate_name climate_method (snd (climate_async_set_preset_mode p f s))"
  using assms
  by (auto simp: climate_async_set_temperature_def climate_async_set_hvac_mode_def
      climate_async_set_preset_mode_def set_temperature_def set_hvac_mode_def
      activate_heating_time_program_def Let_def unless_raised_def
      intro!: reachable_refresh reachable_trigger reachable.submit reachable_zone
      split: option.split sum.split)

lemma hw_writes_reachable:
  assumes "reachable 5 hw_name hw_method s"
  shows "reachable 5 hw_name hw_method (snd (hw_async_set_temperature kwargs f s))"
    and "reachable 5 hw_name hw_method (snd (hw_async_set_hvac_mode m f s))"
    and "reachable 5 hw_name hw_method (snd (hw_async_set_preset_mode p f s))"
  using assms
  by (auto simp: hw_async_set_temperature_def hw_async_set_hvac_mode_def
      hw_async_set_preset_mode_def set_continuous_comfort_with_temperature_def
      hw_set_hvac_mode_def set_schedule_def Let_def unless_raised_def
      intro!: reachable_refresh reachable_trigger reachable.submit reachable_zone
      split: option.split sum.split)

text \<open>Every sequence of events keeps an entity within the reachable states.\<close>

lemma happen_reachable:
  assumes "reachable delay_seconds name decorated s"
  shows "reachable delay_seconds name decorated (happen delay_seconds name decorated ev s)"
proof (cases ev)
  case (Submit w)
  with assms show ?thesis by (simp add: reachable.submit)
next
  case Tick
  with assms show ?thesis by (simp add: reachable.tick)
next
  case (Cache d b)
  with assms show ?thesis by (simp add: reachable.cache)
qed

lemma run_reachable:
  "reachable delay_seconds name decorated s \<Longrightarrow>
   reachable delay_seconds name decorated (run delay_seconds name decorated evs s)"
  by (induction evs arbitrary: s) (simp_all add: happen_reachable)

section \<open>C1: a burst of set_temperature submissions\<close>

text \<open>
  C1. Take a climate entity with no waiting task and submit \<open>set_temperature\<close> to it
  one or more times, each submission fewer than 5 time units after the one before.
  Whatever the cache entry \<open>d\<close> of the zone is when the clock then runs on, 5 or
  more ticks after the last submission every superseded submission is cancelled and
  only the last one has run. Its work has attempted exactly one remote operation,
  with the temperature of the last submission, when the zone's mode then reads Auto
  (a temporary override) or Heat (a manual setpoint), and no remote operation when
  the mode reads anything else.
\<close>

theorem burst_fires_last_submission_once:
  assumes "quiescent s" and "\<forall>g \<in> set (map fst rest). g < 5"
  shows "map outcome (drop (length (tasks s))
           (tasks ((advance climate_method ^^ (5 + n)) ((burst rest (set_temperature t0 s))\<lparr>zone := d\<rparr>))))
         = replicate (length rest) Cancelled @
           [if (climate_hvac_mode d = Some AUTO \<and> api_fails s (Async_set_temporary_override (zone_id s) (last (t0 # map snd rest))))
             \<or> (climate_hvac_mode d = Some HEAT \<and> api_fails s (Async_set_manual (zone_id s) (last (t0 # map snd rest))))
            then Raised RemoteCallFailed else Returned]
       \<and> api_log ((advance climate_method ^^ (5 + n)) ((burst rest (set_temperature t0 s))\<lparr>zone := d\<rparr>))
         = api_log s @
           (if climate_hvac_mode d = Some AUTO
            then [Async_set_temporary_override (zone_id s) (last (t0 # map snd rest))]
            else if climate_hvac_mode d = Some HEAT
            then [Async_set_manual (zone_id s) (last (t0 # map snd rest))]
            else [])"
proof -
  let ?v = "last (t0 # map snd rest)"
  let ?b = "(burst rest (set_temperature t0 s))\<lparr>zone := d\<rparr>"
  let ?x = "((advance climate_method ^^ 4) ?b)\<lparr>clock := clock ?b + 5\<rparr>"
  have "armed climate_name s [] (Set_temperature t0) (Suc 4) (wrapper (Suc 4) climate_name (Set_temperature t0) s)"
    using assms(1) by (rule armed_first)
  then have "armed climate_name s [] (Set_temperature t0) 5 (set_temperature t0 s)"
    by (simp add: set_temperature_def eval_nat_numeral)
  from burst_armed[OF this assms(2)] obtain cs where
    cs: "length cs = length rest" and a: "armed climate_name s cs (Set_temperature ?v) 5 (burst rest (set_temperature t0 s))"
    by auto
  from a have a': "armed climate_name s cs (Set_temperature ?v) 5 ?b" by (simp add: armed_def)
  have x: "zone ?x = d" "zone_id ?x = zone_id s" "api_fails ?x = api_fails s"
    by (simp_all add: set_temperature_def)
  have m: "climate_method ?x (Set_temperature ?v) =
      (if climate_hvac_mode d = Some AUTO
       then await_api (api_fails s) (Async_set_temporary_override (zone_id s) ?v)
       else if climate_hvac_mode d = Some HEAT
       then await_api (api_fails s) (Async_set_manual (zone_id s) ?v)
       else skip)"
    using x by (simp add: set_temperature_method_def del: last.simps)
  from a have c: "map outcome cs = replicate (length cs) Cancelled"
    by (simp add: armed_def cancelled_outcomes)
  from armed_settles[OF a', where decorated = climate_method and n = n] c cs show ?thesis
    unfolding m by (simp add: await_api_def skip_def finished_def del: last.simps)
qed

text \<open>
  The scenario of the specification: a zone in Heat, the temperatures 21.5, 22 and
  22.5 submitted one time unit apart. One manual setpoint with 22.5 is sent.
\<close>

theorem burst_fires_last_submission_once_witness:
  "quiescent (new_entity ''zone-1'' heated_room api_up :: climate_entity)
   \<and> list_all (\<lambda>g. g < (5 :: nat)) (map fst [(1, 22), (1, 45 / 2 :: rat)])
   \<and> map outcome (tasks ((advance climate_method ^^ 5)
        (burst [(1, 22), (1, 45 / 2)] (set_temperature (43 / 2) (new_entity ''zone-1'' heated_room api_up)))))
      = [Cancelled, Cancelled, Returned]
   \<and> api_log ((advance climate_method ^^ 5)
        (burst [(1, 22), (1, 45 / 2)] (set_temperature (43 / 2) (new_entity ''zone-1'' heated_room api_up))))
      = [Async_set_manual ''zone-1'' (45 / 2)]"
proof -
  let ?s = "new_entity ''zone-1'' heated_room api_up :: climate_entity"
  let ?b = "burst [(1, 22), (1, 45 / 2)] (set_temperature (43 / 2) ?s)"
  have h: "quiescent ?s" "\<forall>g \<in> set (map fst [(1, 22), (1, 45 / 2 :: rat)]). g < (5 :: nat)"
    by (simp_all add: quiescent_def new_entity_def)
  have e: "climate_hvac_mode heated_room = Some HEAT" "zone_id ?s = ''zone-1''" "api_log ?s = []"
    "tasks ?s = []" "\<not> api_fails ?s (Async_set_manual ''zone-1'' (45 / 2))"
    "zone ?s = heated_room"
    by (simp_all add: new_entity_def heated_room_def living_room_def climate_hvac_mode_def
        get_opt_def REMEHA_MODE_TO_HVAC_MODE_def api_up_def set_temperature_def)
  from burst_fires_last_submission_once[OF h, where ?t0.0 = "43 / 2" and d = heated_room and n = 0] h
  show ?thesis by (simp add: e zone_update_same)
qed

text \<open>
  The statement without the condition on the mode fails. A zone in Heat accepts a
  temperature write, which submits \<open>set_temperature\<close>; the mode is then set to Off,
  which overlays the cache entry at once. When both tasks fire, the work of
  \<open>set_temperature\<close> runs, reads the mode Off and sends nothing: the only remote
  operation is the one that switches the zone off.
\<close>

theorem burst_without_setpoint_call:
  "map bound_call (tasks heat_then_off) = [Set_temperature (43 / 2), Set_hvac_mode OFF]
   \<and> map outcome (tasks heat_then_off) = [Pending, Pending]
   \<and> map outcome (tasks ((advance climate_method ^^ 5) heat_then_off)) = [Returned, Returned]
   \<and> api_log ((advance climate_method ^^ 5) heat_then_off) = [Async_set_off ''zone-1'']"
  by code_simp

section \<open>C2: setting a preset on a zone in Auto\<close>

text \<open>
  C2. On a climate zone in Auto with active program 2, \<open>async_set_preset_mode\<close> with
  the name of program 1 returns to its caller, and the cache entry then reads Auto
  with active program 1. When the debounced work fires it makes the one remote
  operation that activates heating time program 1 and then raises \<open>TypeError\<close>: the
  task ends with an exception instead of returning. A preset named \<open>program_1\<close> is
  not in the table of the source, whose names are \<open>clock_program_1\<close> to
  \<open>clock_program_3\<close>.
\<close>

theorem preset_work_raises_type_error:
  "fst (climate_async_set_preset_mode ''clock_program_1'' living_room
          (new_entity ''zone-1'' living_room api_up)) = Inr ()
   \<and> climate_hvac_mode (zone after_preset) = Some AUTO
   \<and> activeHeatingClimateTimeProgramNumber (zone after_preset) = 1
   \<and> api_log ((advance climate_method ^^ 5) after_preset) =
        [Async_activate_heating_time_program ''zone-1'' 1]
   \<and> map outcome (tasks ((advance climate_method ^^ 5) after_preset)) = [Raised TypeError]
   \<and> PRESET_MODE_TO_PRESET_INDEX ''program_1'' = None"
  by code_simp

text \<open>
  The work of \<open>activate_heating_time_program\<close> never returns normally and never
  reaches the schedule-select operation, whatever the previous mode was.
\<close>

lemma activate_heating_time_program_never_returns:
  "fst (activate_heating_time_program_method s target_preset previous_hvac_mode) \<noteq> Inr ()"
  "Async_set_schedule z k \<notin> set (snd (activate_heating_time_program_method s target_preset previous_hvac_mode))"
  by (simp_all add: activate_heating_time_program_method_def and_then_def await_api_def raise_def)

section \<open>C3: rejecting an unsupported mode\<close>

text \<open>
  The two entity classes of climate.py reject a mode outside \<open>hvac_modes\<close> before
  they touch anything.
\<close>

lemma climate_py_rejects_before_writing:
  assumes "m \<notin> set hvac_modes"
  shows "climate_async_set_hvac_mode m f s = (Inl NotImplementedError, s)"
    and "hw_async_set_hvac_mode m g h = (Inl NotImplementedError, h)"
  using assms by (simp_all add: climate_async_set_hvac_mode_def hw_async_set_hvac_mode_def)

text \<open>
  C3. The entity class of hot_water.py does not: asked for the mode \<open>COOL\<close> on a zone
  in Auto, it raises \<open>NotImplementedError\<close> and makes no remote operation, but it
  has already overwritten the zone's cached mode, which now reads \<open>None\<close>.
\<close>

theorem hot_water_py_writes_before_rejecting:
  "fst (hot_water_async_set_hvac_mode COOL boiler (new_entity ''dhw-1'' boiler api_up)) =
     Inl NotImplementedError
   \<and> api_log (snd (hot_water_async_set_hvac_mode COOL boiler (new_entity ''dhw-1'' boiler api_up))) = []
   \<and> dhwZoneMode (zone (new_entity ''dhw-1'' boiler api_up :: hot_water_entity)) = Some ''Scheduling''
   \<and> dhwZoneMode (zone (snd (hot_water_async_set_hvac_mode COOL boiler
        (new_entity ''dhw-1'' boiler api_up)))) = None"
  by code_simp

section \<open>C4: the mode tables of a hot-water zone\<close>

text \<open>
  In climate.py the two tables of a hot-water zone are inverse to each other:
  ContinuousComfort and Heat, Scheduling and Auto, Off and Off.
\<close>

lemma hw_mode_tables_inverse:
  "(REMEHA_HW_MODE_TO_HVAC_MODE v = Some m) = (HVAC_MODE_TO_REMEHA_HW_MODE m = Some v)"
  by (cases m) (auto simp: REMEHA_HW_MODE_TO_HVAC_MODE_def split: if_splits)

text \<open>
  C4. The entity class of hot_water.py translates with the tables of its own module,
  which hold the vendor strings of a climate zone: the vendor modes ContinuousComfort
  and Off of a hot-water zone read as no mode at all, and Heat and Off are written
  back as Manual and FrostProtection.
\<close>

theorem hot_water_py_mode_table_differs:
  "hot_water_hvac_mode (boiler\<lparr>dhwZoneMode := Some ''ContinuousComfort''\<rparr>) = None
   \<and> hot_water_hvac_mode (boiler\<lparr>dhwZoneMode := Some ''Off''\<rparr>) = None
   \<and> hot_water_HVAC_MODE_TO_REMEHA_MODE HEAT = Some ''Manual''
   \<and> hot_water_HVAC_MODE_TO_REMEHA_MODE OFF = Some ''FrostProtection''
   \<and> hw_hvac_mode (boiler\<lparr>dhwZoneMode := Some ''ContinuousComfort''\<rparr>) = Some HEAT
   \<and> HVAC_MODE_TO_REMEHA_HW_MODE HEAT = Some ''ContinuousComfort''"
  by code_simp

section \<open>C5: whole hot-water setpoints\<close>

text \<open>
  Every comfort setpoint that a debounced method of the hot-water entity of
  climate.py sends is a whole number: the write operation truncates the temperature
  before it submits it.
\<close>

lemma hw_comfort_setpoint_whole:
  "Async_hw_set_comfort_setpoint z v \<in> set (snd (hw_method s w)) \<Longrightarrow> whole v"
  by (cases w)
    (auto simp: set_continuous_comfort_with_temperature_method_def hw_set_hvac_mode_method_def
      set_schedule_method_def and_then_def await_api_def skip_def whole_def
      split: if_splits sum.splits)

text \<open>
  C5. The entity class of hot_water.py sends the temperature as it receives it: on a
  zone that it reads as Heat, a write of 52.5 sends the comfort setpoint 52.5.
\<close>

theorem hot_water_py_sends_fractional_setpoint:
  "hot_water_hvac_mode (boiler\<lparr>dhwZoneMode := Some ''Manual''\<rparr>) = Some HEAT
   \<and> api_log (snd (hot_water_async_set_temperature (Some (105 / 2)) boiler
        (new_entity ''dhw-1'' (boiler\<lparr>dhwZoneMode := Some ''Manual''\<rparr>) api_up))) =
       [Async_hw_set_comfort_setpoint ''dhw-1'' (105 / 2), Async_hw_set_continuous_comfort ''dhw-1'']
   \<and> \<not> whole (105 / 2)"
  by code_simp

section \<open>C6: the refresh block after a write\<close>

text \<open>
  C6. In climate.py every write that overlays the cache entry or submits a command,
  and whose state write succeeds, sets the refresh deadline to the time of the call
  plus 60: a temperature write on a climate zone that is not Off and on a hot-water
  zone in Heat, a mode write with a mode of \<open>hvac_modes\<close> (for Auto: when the active
  program number of the cache entry is in the preset table, so that the state write
  can read the preset), a preset write with a known name on a climate zone and, when
  the mode was not already Auto, on a hot-water zone. The poll that the same
  operation requests leaves the overlaid cache entry as it is, and so does every
  poll up to the deadline. An accepted write that changes nothing leaves the
  deadline as it was: a temperature write on a climate zone in Off or on a hot-water
  zone that is not in Heat, and a preset write on a hot-water zone already in Auto.
\<close>

theorem accepted_writes_set_refresh_block:
  "(climate_hvac_mode (zone s) \<noteq> Some OFF \<longrightarrow>
      suppressUntil (snd (climate_async_set_temperature (Some t) f s)) = Some (clock s + 60)
      \<and> zone (snd (climate_async_set_temperature (Some t) f s)) = zone s)
   \<and> (m \<in> set hvac_modes
       \<and> (m = AUTO \<longrightarrow> activeHeatingClimateTimeProgramNumber (zone s) \<in> {1, 2, 3}) \<longrightarrow>
      suppressUntil (snd (climate_async_set_hvac_mode m f s)) = Some (clock s + 60)
      \<and> zone (snd (climate_async_set_hvac_mode m f s)) = (zone s)\<lparr>zoneMode := HVAC_MODE_TO_REMEHA_MODE m\<rparr>)
   \<and> (PRESET_MODE_TO_PRESET_INDEX p = Some k \<longrightarrow>
      suppressUntil (snd (climate_async_set_preset_mode p f s)) = Some (clock s + 60)
      \<and> zone (snd (climate_async_set_preset_mode p f s)) =
          (zone s)\<lparr>zoneMode := Some ''Scheduling'', activeHeatingClimateTimeProgramNumber := k\<rparr>)
   \<and> (hw_hvac_mode (zone h) = Some HEAT \<longrightarrow>
      suppressUntil (snd (hw_async_set_temperature (Some t) g h)) = Some (clock h + 60)
      \<and> zone (snd (hw_async_set_temperature (Some t) g h)) =
          (zone h)\<lparr>targetSetpoint := of_int (py_int t), dhwZoneMode := Some ''ContinuousComfort''\<rparr>)
   \<and> (m \<in> set hvac_modes \<and> (m = AUTO \<longrightarrow> activeDwhTimeProgramNumber (zone h) = 1) \<longrightarrow>
      suppressUntil (snd (hw_async_set_hvac_mode m g h)) = Some (clock h + 60)
      \<and> dhwZoneMode (zone (snd (hw_async_set_hvac_mode m g h))) = HVAC_MODE_TO_REMEHA_HW_MODE m)
   \<and> (HW_PRESET_MODE_TO_PRESET_INDEX q = Some j \<and> hw_hvac_mode (zone h) \<noteq> Some AUTO \<longrightarrow>
      suppressUntil (snd (hw_async_set_preset_mode q g h)) = Some (clock h + 60)
      \<and> zone (snd (hw_async_set_preset_mode q g h)) =
          (zone h)\<lparr>dhwZoneMode := Some ''Scheduling'', activeDwhTimeProgramNumber := j\<rparr>)
   \<and> (suppressUntil x = Some deadline \<and> clock x \<le> deadline \<longrightarrow> async_request_refresh y x = x)
   \<and> (climate_hvac_mode (zone r) = Some OFF \<longrightarrow>
      suppressUntil (snd (climate_async_set_temperature kwargs f r)) = suppressUntil r)
   \<and> (hw_hvac_mode (zone b) \<noteq> Some HEAT \<longrightarrow>
      suppressUntil (snd (hw_async_set_temperature kwargs g b)) = suppressUntil b)
   \<and> (hw_hvac_mode (zone b) = Some AUTO \<longrightarrow>
      suppressUntil (snd (hw_async_set_preset_mode q g b)) = suppressUntil b)"
proof -
  have 1: "climate_hvac_mode (zone s) \<noteq> Some OFF \<longrightarrow>
      suppressUntil (snd (climate_async_set_temperature (Some t) f s)) = Some (clock s + 60)
      \<and> zone (snd (climate_async_set_temperature (Some t) f s)) = zone s"
    by (simp add: climate_async_set_temperature_def set_temperature_def)
  have 2: "m \<in> set hvac_modes
       \<and> (m = AUTO \<longrightarrow> activeHeatingClimateTimeProgramNumber (zone s) \<in> {1, 2, 3}) \<longrightarrow>
      suppressUntil (snd (climate_async_set_hvac_mode m f s)) = Some (clock s + 60)
      \<and> zone (snd (climate_async_set_hvac_mode m f s)) = (zone s)\<lparr>zoneMode := HVAC_MODE_TO_REMEHA_MODE m\<rparr>"
    using climate_state_write_after_mode[of m "zone s"]
    by (simp add: climate_async_set_hvac_mode_def set_hvac_mode_def Let_def unless_raised_def)
  have 3: "PRESET_MODE_TO_PRESET_INDEX p = Some k \<longrightarrow>
      suppressUntil (snd (climate_async_set_preset_mode p f s)) = Some (clock s + 60)
      \<and> zone (snd (climate_async_set_preset_mode p f s)) =
          (zone s)\<lparr>zoneMode := Some ''Scheduling'', activeHeatingClimateTimeProgramNumber := k\<rparr>"
    using climate_state_write_after_preset[of p k "zone s"]
    by (simp add: climate_async_set_preset_mode_def activate_heating_time_program_def Let_def
        unless_raised_def)
  have 4: "hw_hvac_mode (zone h) = Some HEAT \<longrightarrow>
      suppressUntil (snd (hw_async_set_temperature (Some t) g h)) = Some (clock h + 60)
      \<and> zone (snd (hw_async_set_temperature (Some t) g h)) =
          (zone h)\<lparr>targetSetpoint := of_int (py_int t), dhwZoneMode := Some ''ContinuousComfort''\<rparr>"
    by (simp add: hw_async_set_temperature_def set_continuous_comfort_with_temperature_def Let_def
        unless_raised_def hw_preset_mode_setpoint hw_state_write_in_heat
        refresh_suppressed[where deadline = "clock h + 60"])
  have 5: "m \<in> set hvac_modes \<and> (m = AUTO \<longrightarrow> activeDwhTimeProgramNumber (zone h) = 1) \<longrightarrow>
      suppressUntil (snd (hw_async_set_hvac_mode m g h)) = Some (clock h + 60)
      \<and> dhwZoneMode (zone (snd (hw_async_set_hvac_mode m g h))) = HVAC_MODE_TO_REMEHA_HW_MODE m"
    using hw_set_mode_accepted[of m h g] by simp
  have 6: "HW_PRESET_MODE_TO_PRESET_INDEX q = Some j \<and> hw_hvac_mode (zone h) \<noteq> Some AUTO \<longrightarrow>
      suppressUntil (snd (hw_async_set_preset_mode q g h)) = Some (clock h + 60)
      \<and> zone (snd (hw_async_set_preset_mode q g h)) =
          (zone h)\<lparr>dhwZoneMode := Some ''Scheduling'', activeDwhTimeProgramNumber := j\<rparr>"
    using hw_state_write_after_preset[of q j "zone h"]
    by (simp add: hw_async_set_preset_mode_def set_schedule_def Let_def unless_raised_def)
  have 7: "suppressUntil x = Some deadline \<and> clock x \<le> deadline \<longrightarrow> async_request_refresh y x = x"
    by (simp add: refresh_suppressed)
  have 8: "climate_hvac_mode (zone r) = Some OFF \<longrightarrow>
      suppressUntil (snd (climate_async_set_temperature kwargs f r)) = suppressUntil r"
    by (simp add: climate_async_set_temperature_def split: option.split)
  have 9: "hw_hvac_mode (zone b) \<noteq> Some HEAT \<longrightarrow>
      suppressUntil (snd (hw_async_set_temperature kwargs g b)) = suppressUntil b"
    by (simp add: hw_async_set_temperature_def Let_def split: option.split)
  have 10: "hw_hvac_mode (zone b) = Some AUTO \<longrightarrow>
      suppressUntil (snd (hw_async_set_preset_mode q g b)) = suppressUntil b"
    by (simp add: hw_async_set_preset_mode_def Let_def async_request_refresh_def split: option.split)
  from 1 2 3 4 5 6 7 8 9 10 show ?thesis by blast
qed

theorem accepted_writes_set_refresh_block_witness:
  "climate_hvac_mode (zone (new_entity ''zone-1'' living_room api_up :: climate_entity)) \<noteq> Some OFF
   \<and> AUTO \<in> set hvac_modes
   \<and> activeHeatingClimateTimeProgramNumber (zone (new_entity ''zone-1'' living_room api_up :: climate_entity)) = 2
   \<and> PRESET_MODE_TO_PRESET_INDEX ''clock_program_1'' = Some 1
   \<and> hw_hvac_mode (zone (new_entity ''dhw-1'' heated_boiler api_up :: hw_entity)) = Some HEAT
   \<and> activeDwhTimeProgramNumber (zone (new_entity ''dhw-1'' heated_boiler api_up :: hw_entity)) = 1
   \<and> HW_PRESET_MODE_TO_PRESET_INDEX ''Scheduling program'' = Some 1
   \<and> hw_hvac_mode (zone (new_entity ''dhw-1'' heated_boiler api_up :: hw_entity)) \<noteq> Some AUTO
   \<and> suppressUntil blocked_boiler = Some 130 \<and> clock blocked_boiler \<le> 130
   \<and> suppressUntil (snd (climate_async_set_temperature (Some (43 / 2)) living_room
        (new_entity ''zone-1'' living_room api_up))) = Some 60
   \<and> suppressUntil (snd (climate_async_set_hvac_mode AUTO living_room
        (new_entity ''zone-1'' living_room api_up))) = Some 60
   \<and> suppressUntil (snd (climate_async_set_preset_mode ''clock_program_1'' living_room
        (new_entity ''zone-1'' living_room api_up))) = Some 60
   \<and> suppressUntil (snd (hw_async_set_temperature (Some (43 / 2)) boiler
        (new_entity ''dhw-1'' heated_boiler api_up))) = Some 60
   \<and> targetSetpoint (zone (snd (hw_async_set_temperature (Some (43 / 2)) boiler
        (new_entity ''dhw-1'' heated_boiler api_up)))) = 21
   \<and> suppressUntil (snd (hw_async_set_hvac_mode AUTO boiler
        (new_entity ''dhw-1'' heated_boiler api_up))) = Some 60
   \<and> suppressUntil (snd (hw_async_set_preset_mode ''Scheduling program'' boiler
        (new_entity ''dhw-1'' heated_boiler api_up))) = Some 60
   \<and> zone (async_request_refresh boiler blocked_boiler) = heated_boiler
   \<and> climate_hvac_mode (zone off_room) = Some OFF
   \<and> hw_hvac_mode (zone scheduled_boiler) \<noteq> Some HEAT
   \<and> hw_hvac_mode (zone scheduled_boiler) = Some AUTO
   \<and> suppressUntil (snd (climate_async_set_temperature (Some (43 / 2)) living_room off_room)) = Some 130
   \<and> suppressUntil (snd (hw_async_set_temperature (Some (43 / 2)) boiler scheduled_boiler)) = Some 130
   \<and> suppressUntil (snd (hw_async_set_preset_mode ''Scheduling program'' boiler scheduled_boiler))
        = Some 130"
proof -
  let ?s = "new_entity ''zone-1'' living_room api_up :: climate_entity"
  let ?h = "new_entity ''dhw-1'' heated_boiler api_up :: hw_entity"
  have h: "climate_hvac_mode (zone ?s) \<noteq> Some OFF" "AUTO \<in> set hvac_modes"
    "activeHeatingClimateTimeProgramNumber (zone ?s) = 2"
    "PRESET_MODE_TO_PRESET_INDEX ''clock_program_1'' = Some 1"
    "hw_hvac_mode (zone ?h) = Some HEAT"
    "activeDwhTimeProgramNumber (zone ?h) = 1"
    "HW_PRESET_MODE_TO_PRESET_INDEX ''Scheduling program'' = Some 1"
    "hw_hvac_mode (zone ?h) \<noteq> Some AUTO"
    "suppressUntil blocked_boiler = Some 130" "clock blocked_boiler \<le> 130"
    "climate_hvac_mode (zone off_room) = Some OFF"
    "hw_hvac_mode (zone scheduled_boiler) \<noteq> Some HEAT"
    "hw_hvac_mode (zone scheduled_boiler) = Some AUTO"
    by code_simp+
  have e: "clock ?s = 0" "clock ?h = 0" "py_int (43 / 2) = 21" "zone blocked_boiler = heated_boiler"
    "suppressUntil off_room = Some 130" "suppressUntil scheduled_boiler = Some 130"
    by code_simp+
  from h accepted_writes_set_refresh_block[where s = ?s and t = "43 / 2" and m = AUTO
      and p = "''clock_program_1''" and k = 1 and h = ?h
      and q = "''Scheduling program''" and j = 1 and x = blocked_boiler and deadline = 130
      and f = living_room and g = boiler and y = boiler and kwargs = "Some (43 / 2)"
      and r = off_room and b = scheduled_boiler]
  show ?thesis by (simp add: e)
qed

text \<open>
  Not every accepted write sets the deadline. In climate.py a preset write on a
  hot-water zone that is already in Auto is accepted and leaves the deadline unset.
  The entity class of hot_water.py never sets it: its mode write makes the remote
  operation and returns with the deadline unset.
\<close>

theorem accepted_write_without_refresh_block:
  "fst (hw_async_set_preset_mode ''Scheduling program'' boiler (new_entity ''dhw-1'' boiler api_up)) = Inr ()
   \<and> suppressUntil (snd (hw_async_set_preset_mode ''Scheduling program'' boiler
        (new_entity ''dhw-1'' boiler api_up))) = None
   \<and> fst (hot_water_async_set_hvac_mode HEAT boiler (new_entity ''dhw-1'' boiler api_up)) = Inr ()
   \<and> api_log (snd (hot_water_async_set_hvac_mode HEAT boiler (new_entity ''dhw-1'' boiler api_up)))
      = [Async_hw_set_continuous_comfort ''dhw-1'']
   \<and> suppressUntil (snd (hot_water_async_set_hvac_mode HEAT boiler (new_entity ''dhw-1'' boiler api_up))) = None"
  by code_simp

text \<open>
  A mode write to Auto on a cache entry whose active program number is not in the
  preset table ends in its state write with \<open>KeyError\<close>: the climate entity has
  overlaid the mode and submitted nothing, the hot-water entity has submitted its
  command, and neither has set the deadline.
\<close>

lemma mode_write_ends_in_state_write:
  "fst (climate_async_set_hvac_mode AUTO heated_room
          (new_entity ''zone-1'' (heated_room\<lparr>activeHeatingClimateTimeProgramNumber := 4\<rparr>) api_up))
     = Inl KeyError"
  "zoneMode (zone (snd (climate_async_set_hvac_mode AUTO heated_room
          (new_entity ''zone-1'' (heated_room\<lparr>activeHeatingClimateTimeProgramNumber := 4\<rparr>) api_up))))
     = Some ''Scheduling''"
  "tasks (snd (climate_async_set_hvac_mode AUTO heated_room
          (new_entity ''zone-1'' (heated_room\<lparr>activeHeatingClimateTimeProgramNumber := 4\<rparr>) api_up)))
     = []"
  "suppressUntil (snd (climate_async_set_hvac_mode AUTO heated_room
          (new_entity ''zone-1'' (heated_room\<lparr>activeHeatingClimateTimeProgramNumber := 4\<rparr>) api_up)))
     = None"
  "fst (hw_async_set_hvac_mode AUTO heated_boiler
          (new_entity ''dhw-1'' (heated_boiler\<lparr>activeDwhTimeProgramNumber := 2\<rparr>) api_up))
     = Inl KeyError"
  "map bound_call (tasks (snd (hw_async_set_hvac_mode AUTO heated_boiler
          (new_entity ''dhw-1'' (heated_boiler\<lparr>activeDwhTimeProgramNumber := 2\<rparr>) api_up))))
     = [Hw_set_hvac_mode AUTO]"
  "suppressUntil (snd (hw_async_set_hvac_mode AUTO heated_boiler
          (new_entity ''dhw-1'' (heated_boiler\<lparr>activeDwhTimeProgramNumber := 2\<rparr>) api_up)))
     = None"
  by code_simp+

section \<open>C7: a remote failure inside debounced work\<close>




section \<open>C8: the round trip of the climate-zone mode tables\<close>

text \<open>
  C8. Each of the modes Off, Heat and Auto, translated to a vendor string of a
  climate zone and back, is the mode again. In the other direction the vendor
  string TemporaryOverride does not come back: it reads as Auto, and Auto is
  written as Scheduling.
\<close>

theorem climate_mode_round_trip: "(m \<in> set hvac_modes \<longrightarrow> get_opt REMEHA_MODE_TO_HVAC_MODE (HVAC_MODE_TO_REMEHA_MODE m) = Some m)
  \<and> REMEHA_MODE_TO_HVAC_MODE ''TemporaryOverride'' = Some AUTO
  \<and> HVAC_MODE_TO_REMEHA_MODE AUTO = Some ''Scheduling''"
  by (auto simp: hvac_modes_def get_opt_def REMEHA_MODE_TO_HVAC_MODE_def)

theorem climate_mode_round_trip_witness: "HEAT \<in> set hvac_modes
  \<and> HVAC_MODE_TO_REMEHA_MODE HEAT = Some ''Manual''
  \<and> get_opt REMEHA_MODE_TO_HVAC_MODE (HVAC_MODE_TO_REMEHA_MODE HEAT) = Some HEAT"
  using climate_mode_round_trip[of HEAT] by (simp add: hvac_modes_def)

section \<open>C9: one live task per key\<close>

text \<open>
  C9. In every reachable state of the debounce mechanism of an entity, two live
  tasks with the same key are the same task. A submission leaves no earlier task of
  its key live, and the task it creates is live.
\<close>

theorem one_live_task_per_key:
  assumes "reachable delay name decorated s"
  shows "(\<forall>i j. live s i \<and> live s j \<and> name (bound_call (tasks s ! i)) = name (bound_call (tasks s ! j)) \<longrightarrow> i = j)
     \<and> (\<forall>w i. i < length (tasks s) \<and> name (bound_call (tasks s ! i)) = name w \<longrightarrow> \<not> live (wrapper delay name w s) i)
     \<and> (\<forall>w. live (wrapper delay name w s) (length (tasks s)))"
proof -
  have r: "registered name s" using assms by (rule reachable_registered)
  have a: "\<forall>i j. live s i \<and> live s j \<and> name (bound_call (tasks s ! i)) = name (bound_call (tasks s ! j)) \<longrightarrow> i = j"
    using r unfolding registered_def by (metis option.inject)
  have b: "\<forall>w i. i < length (tasks s) \<and> name (bound_call (tasks s ! i)) = name w \<longrightarrow> \<not> live (wrapper delay name w s) i"
  proof (intro allI impI notI)
    fix w i assume h: "i < length (tasks s) \<and> name (bound_call (tasks s ! i)) = name w"
      and l: "live (wrapper delay name w s) i"
    from h l have p: "outcome (tasks s ! i) = Pending" "\<not> (debounce_tasks s (name w) = Some i)"
      by (auto simp: live_def wrapper_old split: if_splits)
    with h have "live s i" by (simp add: live_def)
    with r h have "debounce_tasks s (name w) = Some i" by (auto simp: registered_def)
    with p show False by simp
  qed
  have c: "\<forall>w. live (wrapper delay name w s) (length (tasks s))"
    by (simp add: live_def wrapper_length wrapper_new)
  from a b c show ?thesis by blast
qed

theorem one_live_task_per_key_witness:
  "reachable 5 climate_name climate_method two_submissions
   \<and> map outcome (tasks two_submissions) = [Cancelled, Pending]
   \<and> live two_submissions 1
   \<and> climate_name (bound_call (tasks two_submissions ! 1)) = climate_name (Set_temperature 23)
   \<and> \<not> live (wrapper 5 climate_name (Set_temperature 23) two_submissions) 1
   \<and> live (wrapper 5 climate_name (Set_temperature 23) two_submissions) 2"
proof -
  have r: "reachable 5 climate_name climate_method two_submissions"
    unfolding two_submissions_def set_temperature_def
    by (intro reachable.submit reachable.fresh) (simp_all add: new_entity_def)
  have e: "map outcome (tasks two_submissions) = [Cancelled, Pending]" "live two_submissions 1"
    "climate_name (bound_call (tasks two_submissions ! 1)) = climate_name (Set_temperature 23)"
    "length (tasks two_submissions) = 2"
    by code_simp+
  from one_live_task_per_key[OF r] e r show ?thesis by (simp add: eval_nat_numeral)
qed

section \<open>C10: reading the preset of a zone in Auto\<close>

text \<open>
  C10. While the mode of a zone reads Auto, reading its preset raises \<open>KeyError\<close>
  exactly when the active program number is not in the preset table: outside 1, 2
  and 3 for a climate zone, other than 1 for a hot-water zone of either module.
  Reading the mode of a zone whose vendor string is in no table gives \<open>None\<close>, and
  so does reading the action of a zone in Auto whose status string is in no table.
\<close>

theorem preset_mode_read_is_partial:
  "(climate_hvac_mode d = Some AUTO \<longrightarrow>
      (climate_preset_mode d = Inl KeyError) = (activeHeatingClimateTimeProgramNumber d \<notin> {1, 2, 3}))
   \<and> (hw_hvac_mode h = Some AUTO \<longrightarrow>
      (hw_preset_mode h = Inl KeyError) = (activeDwhTimeProgramNumber h \<noteq> 1))
   \<and> (hot_water_hvac_mode h' = Some AUTO \<longrightarrow>
      (hot_water_preset_mode h' = Inl KeyError) = (activeDwhTimeProgramNumber h' \<noteq> 1))
   \<and> (REMEHA_MODE_TO_HVAC_MODE v = None \<longrightarrow> climate_hvac_mode (d\<lparr>zoneMode := Some v\<rparr>) = None)
   \<and> (REMEHA_HW_MODE_TO_HVAC_MODE v = None \<longrightarrow> hw_hvac_mode (h\<lparr>dhwZoneMode := Some v\<rparr>) = None)
   \<and> (hot_water_REMEHA_MODE_TO_HVAC_MODE v = None \<longrightarrow>
        hot_water_hvac_mode (h'\<lparr>dhwZoneMode := Some v\<rparr>) = None)
   \<and> (climate_hvac_mode d = Some AUTO \<and> REMEHA_STATUS_TO_HVAC_ACTION a = None \<longrightarrow>
        climate_hvac_action (d\<lparr>activeComfortDemand := Some a\<rparr>) = None)
   \<and> (hw_hvac_mode h = Some AUTO \<and> REMEHA_HW_STATUS_TO_HVAC_ACTION a = None \<longrightarrow>
        hw_hvac_action (h\<lparr>dhwStatus := Some a\<rparr>) = None)
   \<and> (hot_water_hvac_mode h' = Some AUTO \<and> hot_water_REMEHA_STATUS_TO_HVAC_ACTION a = None \<longrightarrow>
        hot_water_hvac_action (h'\<lparr>dhwStatus := Some a\<rparr>) = None)"
proof -
  have 1: "climate_hvac_mode d = Some AUTO \<longrightarrow>
      (climate_preset_mode d = Inl KeyError) = (activeHeatingClimateTimeProgramNumber d \<notin> {1, 2, 3})"
    by (simp add: climate_preset_mode_def subscript_def PRESET_INDEX_TO_PRESET_MODE_def)
  have 2: "hw_hvac_mode h = Some AUTO \<longrightarrow>
      (hw_preset_mode h = Inl KeyError) = (activeDwhTimeProgramNumber h \<noteq> 1)"
    by (simp add: hw_preset_mode_def subscript_def PRESET_INDEX_TO_HW_PRESET_MODE_def)
  have 3: "hot_water_hvac_mode h' = Some AUTO \<longrightarrow>
      (hot_water_preset_mode h' = Inl KeyError) = (activeDwhTimeProgramNumber h' \<noteq> 1)"
    by (simp add: hot_water_preset_mode_def subscript_def hot_water_PRESET_INDEX_TO_PRESET_MODE_def)
  have 4: "REMEHA_MODE_TO_HVAC_MODE v = None \<longrightarrow> climate_hvac_mode (d\<lparr>zoneMode := Some v\<rparr>) = None"
    "REMEHA_HW_MODE_TO_HVAC_MODE v = None \<longrightarrow> hw_hvac_mode (h\<lparr>dhwZoneMode := Some v\<rparr>) = None"
    "hot_water_REMEHA_MODE_TO_HVAC_MODE v = None \<longrightarrow>
        hot_water_hvac_mode (h'\<lparr>dhwZoneMode := Some v\<rparr>) = None"
    by (simp_all add: climate_hvac_mode_def hw_hvac_mode_def hot_water_hvac_mode_def get_opt_def)
  have 5: "climate_hvac_mode d = Some AUTO \<and> REMEHA_STATUS_TO_HVAC_ACTION a = None \<longrightarrow>
        climate_hvac_action (d\<lparr>activeComfortDemand := Some a\<rparr>) = None"
    by (simp add: climate_hvac_action_def climate_hvac_mode_def get_opt_def)
  have 6: "hw_hvac_mode h = Some AUTO \<and> REMEHA_HW_STATUS_TO_HVAC_ACTION a = None \<longrightarrow>
        hw_hvac_action (h\<lparr>dhwStatus := Some a\<rparr>) = None"
    by (simp add: hw_hvac_action_def hw_hvac_mode_def get_opt_def)
  have 7: "hot_water_hvac_mode h' = Some AUTO \<and> hot_water_REMEHA_STATUS_TO_HVAC_ACTION a = None \<longrightarrow>
        hot_water_hvac_action (h'\<lparr>dhwStatus := Some a\<rparr>) = None"
    by (simp add: hot_water_hvac_action_def hot_water_hvac_mode_def get_opt_def)
  from 1 2 3 4 5 6 7 show ?thesis by blast
qed

theorem preset_mode_read_is_partial_witness:
  "climate_hvac_mode (living_room\<lparr>activeHeatingClimateTimeProgramNumber := 4\<rparr>) = Some AUTO
   \<and> hw_hvac_mode (boiler\<lparr>activeDwhTimeProgramNumber := 2\<rparr>) = Some AUTO
   \<and> hot_water_hvac_mode (boiler\<lparr>activeDwhTimeProgramNumber := 2\<rparr>) = Some AUTO
   \<and> REMEHA_MODE_TO_HVAC_MODE ''Holiday'' = None
   \<and> REMEHA_HW_MODE_TO_HVAC_MODE ''Holiday'' = None
   \<and> hot_water_REMEHA_MODE_TO_HVAC_MODE ''Holiday'' = None
   \<and> REMEHA_STATUS_TO_HVAC_ACTION ''Cooling'' = None
   \<and> REMEHA_HW_STATUS_TO_HVAC_ACTION ''Cooling'' = None
   \<and> hot_water_REMEHA_STATUS_TO_HVAC_ACTION ''Cooling'' = None
   \<and> climate_preset_mode (living_room\<lparr>activeHeatingClimateTimeProgramNumber := 4\<rparr>) = Inl KeyError
   \<and> hw_preset_mode (boiler\<lparr>activeDwhTimeProgramNumber := 2\<rparr>) = Inl KeyError
   \<and> hot_water_preset_mode (boiler\<lparr>activeDwhTimeProgramNumber := 2\<rparr>) = Inl KeyError
   \<and> climate_hvac_mode (living_room\<lparr>activeHeatingClimateTimeProgramNumber := 4, zoneMode := Some ''Holiday''\<rparr>) = None
   \<and> climate_hvac_action (living_room\<lparr>activeHeatingClimateTimeProgramNumber := 4,
        activeComfortDemand := Some ''Cooling''\<rparr>) = None"
proof -
  let ?d = "living_room\<lparr>activeHeatingClimateTimeProgramNumber := 4\<rparr>"
  let ?h = "boiler\<lparr>activeDwhTimeProgramNumber := 2\<rparr>"
  have h: "climate_hvac_mode ?d = Some AUTO" "hw_hvac_mode ?h = Some AUTO"
    "hot_water_hvac_mode ?h = Some AUTO"
    "REMEHA_MODE_TO_HVAC_MODE ''Holiday'' = None"
    "REMEHA_HW_MODE_TO_HVAC_MODE ''Holiday'' = None"
    "hot_water_REMEHA_MODE_TO_HVAC_MODE ''Holiday'' = None"
    "REMEHA_STATUS_TO_HVAC_ACTION ''Cooling'' = None"
    "REMEHA_HW_STATUS_TO_HVAC_ACTION ''Cooling'' = None"
    "hot_water_REMEHA_STATUS_TO_HVAC_ACTION ''Cooling'' = None"
    by code_simp+
  have e: "activeHeatingClimateTimeProgramNumber ?d = 4" "activeDwhTimeProgramNumber ?h = 2"
    by simp_all
  from h preset_mode_read_is_partial[where d = ?d and h = ?h and h' = ?h and v = "''Holiday''" and a = "''Cooling''"]
  show ?thesis by (simp add: e)
qed

end
